theory Spec2Isabelle
  imports Complex_Main "HOL-Library.Word"
begin

section \<open>JavaScript strings\<close>

text \<open>
  A JavaScript string is a sequence of 16-bit code units, and \<open>includes\<close>,
  \<open>startsWith\<close>, \<open>trim\<close> and \<open>===\<close> work on code units. The literals of the
  program that lie outside ASCII are written as the lists of their code units; the comment
  beside each one glosses it.
\<close>

type_synonym jsstring = "16 word list"

definition ascii :: "string \<Rightarrow> jsstring" where
  "ascii s = map (\<lambda>c. of_nat (of_char c)) s"

text \<open>\<open>s.startsWith(p)\<close> and \<open>s.includes(key)\<close>, both from position 0.\<close>

definition startsWith :: "jsstring \<Rightarrow> jsstring \<Rightarrow> bool" where
  "startsWith s p = (take (length p) s = p)"

fun includes_js :: "jsstring \<Rightarrow> jsstring \<Rightarrow> bool" where
  "includes_js [] key = (key = [])"
| "includes_js (c # cs) key = (startsWith (c # cs) key \<or> includes_js cs key)"

text \<open>
  \<open>s.trim()\<close> removes the code units of WhiteSpace and LineTerminator from both ends:
  U+0009 to U+000D, U+0020, U+00A0, U+1680, U+2000 to U+200A, U+2028, U+2029, U+202F,
  U+205F, U+3000 and U+FEFF.
\<close>

definition is_white :: "16 word \<Rightarrow> bool" where
  "is_white c = (c \<in> set [0x0009, 0x000A, 0x000B, 0x000C, 0x000D, 0x0020, 0x00A0, 0x1680,
                           0x2000, 0x2001, 0x2002, 0x2003, 0x2004, 0x2005, 0x2006, 0x2007,
                           0x2008, 0x2009, 0x200A, 0x2028, 0x2029, 0x202F, 0x205F, 0x3000,
                           0xFEFF])"

definition trim :: "jsstring \<Rightarrow> jsstring" where
  "trim s = rev (dropWhile is_white (rev (dropWhile is_white s)))"

section \<open>Exceptions and decoded JSON\<close>

text \<open>
  A thrown value is an error object with a name and a message. \<open>Error\<close> is what
  \<open>new Error(m)\<close> of the program makes; the others come from the engine and from the
  browser (a rejected \<open>fetch\<close>, a body that is not JSON, a refused camera). A function
  that may throw returns \<open>exn + 'a\<close>, with \<open>Inl\<close> the thrown value; an \<open>await\<close> of a
  rejected promise throws in the same way.
\<close>

datatype exn_name = Error | TypeError | SyntaxError | ReferenceError | NotAllowedError
  | PermissionDeniedError | NotFoundError | OtherError

datatype exn = Exn (name: exn_name) (message: jsstring)

definition then_do :: "exn + 'a \<Rightarrow> ('a \<Rightarrow> exn + 'b) \<Rightarrow> exn + 'b" where
  "then_do m f = (case m of Inl e \<Rightarrow> Inl e | Inr x \<Rightarrow> f x)"

definition try_catch :: "exn + 'a \<Rightarrow> (exn \<Rightarrow> exn + 'a) \<Rightarrow> exn + 'a" where
  "try_catch m handler = (case m of Inl e \<Rightarrow> handler e | Inr x \<Rightarrow> Inr x)"

text \<open>
  The value that \<open>response.json()\<close> decodes. A number is a double, and the program does
  two things with a number it has decoded: it tests it for truth, and it converts it to a
  string. So a number is kept as the pair of a flag, which says that the number is not
  zero, and the string that the engine's Number-to-string conversion gives for it
  (\<open>1e+21\<close> for ten to the power 21, \<open>0.5\<close> for one half). An object is the list of
  its own properties, the keys distinct. \<open>undefined\<close> is not a JSON value: a property
  read gives a \<open>json option\<close>, \<open>None\<close> being \<open>undefined\<close>.
\<close>

datatype json = JNull | JBool bool | JNum bool jsstring | JStr jsstring | JArr "json list"
  | JObj "(jsstring \<times> json) list"

text \<open>The messages of the engine's TypeErrors, as V8 words them; \<open>0x27\<close> is the quote.\<close>

definition msg_null_read :: "jsstring \<Rightarrow> jsstring" where
  "msg_null_read k =
     ascii ''Cannot read properties of null (reading '' @ [0x27] @ k @ [0x27] @ ascii '')''"

definition msg_undefined_read :: "jsstring \<Rightarrow> jsstring" where
  "msg_undefined_read k =
     ascii ''Cannot read properties of undefined (reading '' @ [0x27] @ k @ [0x27] @ ascii '')''"

definition msg_not_function :: jsstring where
  "msg_not_function = ascii ''result.objects.join is not a function''"

definition msg_not_primitive :: jsstring where
  "msg_not_primitive = ascii ''Cannot convert object to primitive value''"

text \<open>
  \<open>v.k\<close> for the property names the program reads (\<open>status\<close>, \<open>model_loaded\<close>,
  \<open>success\<close>, \<open>description\<close>, \<open>objects\<close>, \<open>error\<close>), none of which is inherited from a
  prototype: reading a property of \<open>null\<close> throws a TypeError, an object gives its own
  property, every other value gives \<open>undefined\<close>.
\<close>

fun get_prop :: "json \<Rightarrow> jsstring \<Rightarrow> exn + json option" where
  "get_prop JNull k = Inl (Exn TypeError (msg_null_read k))"
| "get_prop (JObj kvs) k = Inr (map_of kvs k)"
| "get_prop v k = Inr None"

text \<open>Truthiness, as \<open>if (v)\<close> and \<open>v || d\<close> test it.\<close>

fun truthy :: "json option \<Rightarrow> bool" where
  "truthy None = False"
| "truthy (Some JNull) = False"
| "truthy (Some (JBool b)) = b"
| "truthy (Some (JNum nonzero printed)) = nonzero"
| "truthy (Some (JStr s)) = (s \<noteq> [])"
| "truthy (Some (JArr xs)) = True"
| "truthy (Some (JObj kvs)) = True"

text \<open>\<open>v || d\<close> with a string literal \<open>d\<close>.\<close>

definition or_else :: "json option \<Rightarrow> jsstring \<Rightarrow> json" where
  "or_else v d = (case v of None \<Rightarrow> JStr d | Some j \<Rightarrow> if truthy (Some j) then j else JStr d)"

text \<open>
  ToString. An array joins its elements with a comma, \<open>null\<close> elements printing as the
  empty string; an object prints as \<open>[object Object]\<close> through \<open>Object.prototype.toString\<close>,
  unless it has an own property \<open>toString\<close>, which for decoded JSON is never callable, and
  then the conversion throws a TypeError. \<open>join_elems sep xs\<close> is \<open>xs.join(sep)\<close>.
\<close>

fun to_string :: "json \<Rightarrow> exn + jsstring"
  and join_elems :: "jsstring \<Rightarrow> json list \<Rightarrow> exn + jsstring" where
  "to_string JNull = Inr (ascii ''null'')"
| "to_string (JBool b) = Inr (if b then ascii ''true'' else ascii ''false'')"
| "to_string (JNum nonzero printed) = Inr printed"
| "to_string (JStr s) = Inr s"
| "to_string (JArr xs) = join_elems (ascii '','') xs"
| "to_string (JObj kvs) =
     (if map_of kvs (ascii ''toString'') = None then Inr (ascii ''[object Object]'')
      else Inl (Exn TypeError msg_not_primitive))"
| "join_elems sep [] = Inr []"
| "join_elems sep [x] = (if x = JNull then Inr [] else to_string x)"
| "join_elems sep (x # y # ys) =
     (case (if x = JNull then Inr [] else to_string x) of
        Inl e \<Rightarrow> Inl e
      | Inr s \<Rightarrow> (case join_elems sep (y # ys) of
                   Inl e \<Rightarrow> Inl e
                 | Inr r \<Rightarrow> Inr (s @ sep @ r)))"

text \<open>ToString of a value that may be \<open>undefined\<close>, as a template literal applies it.\<close>

definition to_string_opt :: "json option \<Rightarrow> exn + jsstring" where
  "to_string_opt v = (case v of None \<Rightarrow> Inr (ascii ''undefined'') | Some j \<Rightarrow> to_string j)"

text \<open>
  \<open>v.join(sep)\<close> for \<open>v\<close> read from a decoded body: only an array has a callable
  \<open>join\<close>; on \<open>undefined\<close> and \<open>null\<close> the property read throws, on any other value the
  call of a non-function throws.
\<close>

definition call_join :: "json option \<Rightarrow> jsstring \<Rightarrow> exn + jsstring" where
  "call_join v sep =
     (case v of
        None \<Rightarrow> Inl (Exn TypeError (msg_undefined_read (ascii ''join'')))
      | Some JNull \<Rightarrow> Inl (Exn TypeError (msg_null_read (ascii ''join'')))
      | Some (JArr xs) \<Rightarrow> join_elems sep xs
      | Some _ \<Rightarrow> Inl (Exn TypeError msg_not_function))"

section \<open>api.js: the client of the backend\<close>

record endpoints_t =
  identify :: jsstring
  chat_ep :: jsstring
  health :: jsstring

record APIClient =
  baseURL :: jsstring
  endpoints :: endpoints_t

definition API_CONFIG :: APIClient where
  "API_CONFIG = \<lparr>baseURL = ascii ''http://localhost:5000'',
                  endpoints = \<lparr>identify = ascii ''/api/identify'',
                                chat_ep = ascii ''/api/chat'',
                                health = ascii ''/health''\<rparr>\<rparr>"

text \<open>
  What \<open>fetch\<close> is given: the URL, the method and the value whose \<open>JSON.stringify\<close> is
  the body. What it gives back: a rejection, or a response with its \<open>ok\<close> flag (status in
  the range 200 to 299) and the outcome of \<open>response.json()\<close>.
\<close>

datatype http_method = GET | POST

record request =
  url :: jsstring
  http_method :: http_method
  payload :: "json option"

record response =
  ok :: bool
  body :: "exn + json"

type_synonym fetched = "exn + response"

text \<open>The generic messages of \<open>identifyImage\<close> and \<open>chat\<close>.\<close>

definition msg_identify_failed :: jsstring where
  \<comment> \<open>identifyImage: generic message (identification failed)\<close>
  "msg_identify_failed =
     [0x8BC6, 0x522B, 0x5931, 0x8D25]"

definition msg_chat_failed :: jsstring where
  \<comment> \<open>chat: generic message (chat failed)\<close>
  "msg_chat_failed =
     [0x804A, 0x5929, 0x5931, 0x8D25]"

text \<open>
  \<open>constructor(config = API_CONFIG)\<close>; the program only calls \<open>new APIClient()\<close>.
  \<open>new_APIClient\<close> is the object made. In script.js the expression is evaluated where
  the class may be missing: api.js and script.js both declare \<open>apiClient\<close> at the top
  level, so of two classic scripts the second is refused, and when that is api.js the name
  \<open>APIClient\<close> is not defined and the expression throws a ReferenceError.
  \<open>construct_APIClient\<close> takes whether the class is in scope.
\<close>

definition new_APIClient :: APIClient where
  "new_APIClient = \<lparr>baseURL = baseURL API_CONFIG, endpoints = endpoints API_CONFIG\<rparr>"

definition construct_APIClient :: "bool \<Rightarrow> exn + APIClient" where
  "construct_APIClient class_in_scope =
     (if class_in_scope then Inr new_APIClient
      else Inl (Exn ReferenceError (ascii ''APIClient is not defined'')))"

text \<open>
  Each method of the client is split at its \<open>await fetch(...)\<close>: the request it sends,
  and the function of what \<open>fetch\<close> returned that gives the method's result (\<open>Inl\<close> when
  the method throws, that is, when the promise it returns is rejected).
\<close>

definition checkHealth_request :: "APIClient \<Rightarrow> request" where
  "checkHealth_request this =
     \<lparr>url = baseURL this @ health (endpoints this), http_method = GET, payload = None\<rparr>"

definition checkHealth :: "fetched \<Rightarrow> exn + json" where
  "checkHealth fetched =
     try_catch
       (then_do fetched (\<lambda>response.
        then_do (body response) (\<lambda>data.
        Inr data)))
       (\<lambda>error. Inr (JObj [(ascii ''status'', JStr (ascii ''error'')),
                             (ascii ''error'', JStr (message error))]))"

definition identifyImage_request :: "APIClient \<Rightarrow> jsstring \<Rightarrow> jsstring \<Rightarrow> request" where
  "identifyImage_request this imageBase64 text =
     \<lparr>url = baseURL this @ identify (endpoints this), http_method = POST,
      payload = Some (JObj [(ascii ''image'', JStr imageBase64), (ascii ''text'', JStr text)])\<rparr>"

text \<open>\<open>throw new Error(v)\<close>: the message is ToString of \<open>v\<close>.\<close>

definition throw_new_Error :: "json \<Rightarrow> exn + 'a" where
  "throw_new_Error v = then_do (to_string v) (\<lambda>m. Inl (Exn Error m))"

definition identifyImage :: "fetched \<Rightarrow> exn + json" where
  "identifyImage fetched =
     try_catch
       (then_do fetched (\<lambda>response.
        then_do (body response) (\<lambda>data.
        if \<not> ok response
        then then_do (get_prop data (ascii ''error'')) (\<lambda>e.
             throw_new_Error (or_else e msg_identify_failed))
        else Inr data)))
       (\<lambda>error. Inl error)"

definition chat_request ::
  "APIClient \<Rightarrow> jsstring \<Rightarrow> jsstring option \<Rightarrow> jsstring \<Rightarrow> request" where
  "chat_request this message' imageBase64 context' =
     (let payload0 = [(ascii ''message'', JStr message'), (ascii ''context'', JStr context')];
          payload1 = (case imageBase64 of
                        None \<Rightarrow> payload0
                      | Some i \<Rightarrow> if i \<noteq> [] then payload0 @ [(ascii ''image'', JStr i)]
                                  else payload0)
      in \<lparr>url = baseURL this @ chat_ep (endpoints this), http_method = POST,
          payload = Some (JObj payload1)\<rparr>)"

definition chat :: "fetched \<Rightarrow> exn + json" where
  "chat fetched =
     try_catch
       (then_do fetched (\<lambda>response.
        then_do (body response) (\<lambda>data.
        if \<not> ok response
        then then_do (get_prop data (ascii ''error'')) (\<lambda>e.
             throw_new_Error (or_else e msg_chat_failed))
        else Inr data)))
       (\<lambda>error. Inl error)"

section \<open>script.js: the state of the page\<close>

text \<open>
  The state holds the global variables \<open>currentStream\<close> and \<open>apiClient\<close>, the parts of
  the document that the handlers change, and what is pending: timers, file readers and
  requests in flight. The alerts shown, the requests sent and the exceptions that no
  handler caught are logged in order. Left out are \<open>currentPosition\<close> and \<open>locationText\<close>
  (written by \<open>initGeolocation\<close> and \<open>initCamera\<close>, read nowhere), the inline styles, the
  class of the drop zone, the value of the file input and the console. The elements that
  the script looks up by id are taken to exist.
\<close>

text \<open>A message of the transcript: a child of \<open>chatMessages\<close>, as \<open>addMessage\<close> builds it.\<close>

datatype origin = User | Spirit

record chat_message =
  origin :: origin
  text_content :: jsstring
  image_src :: "jsstring option"

text \<open>A track of the camera stream; \<open>stopped\<close> is \<open>readyState === 'ended'\<close>.\<close>

record track =
  kind :: jsstring
  enabled :: bool
  stopped :: bool

text \<open>
  The elements that have carried the id \<open>use-photo-btn\<close>: number 0 is the element that
  the constant \<open>usePhotoBtn\<close> refers to, the others are its clones. \<open>attached\<close> says
  that the element has a parent node, that is, that it is the one in the document.
\<close>

datatype listener = Listener_usePhoto | Listener_useUploadedPhoto jsstring

record button =
  attached :: bool
  listeners :: "listener list"

text \<open>The callbacks given to \<open>setTimeout\<close>, with the variables they close over.\<close>

datatype callback =
    ClearAwakenTransform
  | ClearFabTransform
  | SpiritResponse jsstring
  | PhotoLocalReply
  | UploadLocalReply
  | ShowPreview jsstring nat

record timer =
  delay :: real
  callback :: callback

text \<open>A file of a file list: its MIME type, and the data URL that reading it gives.\<close>

record file_t =
  ftype :: jsstring
  dataURL :: jsstring

datatype identify_caller = From_usePhoto | From_useUploadedPhoto

record state =
  currentStream :: "track list option"
  apiClient :: "APIClient option"
  loaded :: bool
  home_active :: bool
  chat_active :: bool
  modal_active :: bool
  capturedPhoto_src :: jsstring
  chatInput_value :: jsstring
  chatMessages :: "chat_message list"
  buttons :: "button list"
  timers :: "timer list"
  readers :: "(jsstring \<times> nat) list"
  alerts :: "jsstring list"
  requests :: "request list"
  awaiting_health :: bool
  awaiting_camera :: bool
  awaiting_identify :: "identify_caller list"
  uncaught :: "exn list"

text \<open>
  The page when the scripts have been evaluated and no event has been handled: the globals
  are \<open>null\<close>, the transcript is empty, the button found by \<open>getElementById\<close> is in the
  document. Which screen the markup shows first is not in the sources; the home screen is
  taken.
\<close>

definition init_state :: state where
  "init_state =
     \<lparr>currentStream = None, apiClient = None, loaded = False,
      home_active = True, chat_active = False, modal_active = False,
      capturedPhoto_src = [], chatInput_value = [], chatMessages = [],
      buttons = [\<lparr>attached = True, listeners = []\<rparr>],
      timers = [], readers = [], alerts = [], requests = [],
      awaiting_health = False, awaiting_camera = False, awaiting_identify = [],
      uncaught = []\<rparr>"

subsection \<open>The string literals of script.js\<close>

definition kw_nihao :: jsstring where
  \<comment> \<open>the key U+4F60 U+597D (ni hao, hello)\<close>
  "kw_nihao =
     [0x4F60, 0x597D]"

definition kw_gushi :: jsstring where
  \<comment> \<open>the key U+6545 U+4E8B (gu shi, story)\<close>
  "kw_gushi =
     [0x6545, 0x4E8B]"

definition kw_mingzi :: jsstring where
  \<comment> \<open>the key U+540D U+5B57 (ming zi, name)\<close>
  "kw_mingzi =
     [0x540D, 0x5B57]"

definition greeting_replies :: "jsstring list" where
  \<comment> \<open>the three replies stored under the hello key\<close>
  "greeting_replies =
     [[0x4F60, 0x597D, 0x5440, 0xFF01, 0x5F88, 0x9AD8, 0x5174, 0x89C1, 0x5230, 0x4F60,
      0x3002],
      [0x563F, 0xFF0C, 0x4F60, 0x7EC8, 0x4E8E, 0x6765, 0x4E86, 0xFF01],
      [0x4F60, 0x597D, 0xFF0C, 0x6211, 0x662F, 0x8FD9, 0x91CC, 0x7684, 0x5730, 0x7075,
      0x3002]]"

definition story_replies :: "jsstring list" where
  \<comment> \<open>the three replies stored under the story key\<close>
  "story_replies =
     [[0x6211, 0x6709, 0x597D, 0x591A, 0x6545, 0x4E8B, 0x8981, 0x8BB2, 0x5462, 0xFF0C,
      0x4F60, 0x60F3, 0x542C, 0x54EA, 0x4E2A, 0xFF1F],
      [0x6545, 0x4E8B, 0x554A, 0x002E, 0x002E, 0x002E, 0x8BA9, 0x6211, 0x60F3, 0x60F3,
      0x4ECE, 0x54EA, 0x8BF4, 0x8D77, 0x597D, 0x5462, 0x3002],
      [0x6211, 0x7684, 0x6545, 0x4E8B, 0x90FD, 0x5728, 0x8336, 0x91CC, 0x5462, 0xFF0C,
      0x8981, 0x4E0D, 0x8981, 0x6765, 0x4E00, 0x676F, 0xFF1F]]"

definition name_replies :: "jsstring list" where
  \<comment> \<open>the two replies stored under the name key\<close>
  "name_replies =
     [[0x6211, 0x662F, 0x8336, 0x58F6, 0x5730, 0x7075, 0xFF0C, 0x4F60, 0x53EF, 0x4EE5,
      0x53EB, 0x6211, 0x5C0F, 0x8336, 0x3002],
      [0x540D, 0x5B57, 0xFF1F, 0x6211, 0x6709, 0x5F88, 0x591A, 0x540D, 0x5B57, 0xFF0C,
      0x4F60, 0x53EB, 0x6211, 0x4EC0, 0x4E48, 0x90FD, 0x53EF, 0x4EE5, 0x3002]]"

definition default_replies :: "jsstring list" where
  \<comment> \<open>the seven replies stored under the key default\<close>
  "default_replies =
     [[0x6709, 0x8DA3, 0x7684, 0x95EE, 0x9898, 0x002E, 0x002E, 0x002E, 0x8BA9, 0x6211,
      0x60F3, 0x60F3, 0x3002],
      [0x55EF, 0x55EF, 0xFF0C, 0x4F60, 0x8BF4, 0x5F97, 0x5BF9, 0x3002],
      [0x8FD9, 0x4E2A, 0x95EE, 0x9898, 0x5F88, 0x6709, 0x6DF1, 0x610F, 0x5462, 0x3002],
      [0x6211, 0x80FD, 0x611F, 0x89C9, 0x5230, 0x4F60, 0x7684, 0x771F, 0x8BDA, 0x3002],
      [0x4E07, 0x7269, 0x7686, 0x6709, 0x7075, 0xFF0C, 0x4F60, 0x611F, 0x53D7, 0x5230,
      0x4E86, 0x5417, 0xFF1F],
      [0x7EE7, 0x7EED, 0x8BF4, 0xFF0C, 0x6211, 0x5728, 0x542C, 0x5462, 0x3002],
      [0x54C8, 0x54C8, 0xFF0C, 0x4F60, 0x771F, 0x6709, 0x610F, 0x601D, 0xFF01]]"

definition txt_photo_taken :: jsstring where
  \<comment> \<open>usePhoto: text of the user message (I took a photo)\<close>
  "txt_photo_taken =
     [0x6211, 0x62CD, 0x4E86, 0x4E00, 0x5F20, 0x7167, 0x7247]"

definition txt_let_me_look :: jsstring where
  \<comment> \<open>usePhoto: progress message (let me see what this is...)\<close>
  "txt_let_me_look =
     [0x8BA9, 0x6211, 0x770B, 0x770B, 0x8FD9, 0x662F, 0x4EC0, 0x4E48, 0x002E, 0x002E,
     0x002E]"

definition txt_recognised_head :: jsstring where
  \<comment> \<open>template head (I recognised it! This is:)\<close>
  "txt_recognised_head =
     [0x6211, 0x8BC6, 0x522B, 0x51FA, 0x6765, 0x4E86, 0xFF01, 0x8FD9, 0x662F, 0xFF1A]"

definition txt_recognised_mid :: jsstring where
  \<comment> \<open>template middle: two line feeds, then (the objects in it are:)\<close>
  "txt_recognised_mid =
     [0x000A, 0x000A, 0x5176, 0x4E2D, 0x7684, 0x7269, 0x4F53, 0x6709, 0xFF1A]"

definition txt_join_sep :: jsstring where
  \<comment> \<open>the separator U+3001 given to join\<close>
  "txt_join_sep =
     [0x3001]"

definition txt_not_identified :: jsstring where
  \<comment> \<open>reply when result.success is falsy (sorry, I could not identify this)\<close>
  "txt_not_identified =
     [0x62B1, 0x6B49, 0xFF0C, 0x6211, 0x6CA1, 0x80FD, 0x8BC6, 0x522B, 0x51FA, 0x8FD9,
     0x662F, 0x4EC0, 0x4E48, 0x3002]"

definition txt_identify_error :: jsstring where
  \<comment> \<open>reply of the catch block (something went wrong while identifying, ...)\<close>
  "txt_identify_error =
     [0x8BC6, 0x522B, 0x65F6, 0x51FA, 0x9519, 0x4E86, 0xFF0C, 0x4F46, 0x6211, 0x80FD,
     0x611F, 0x53D7, 0x5230, 0x8FD9, 0x5F20, 0x7167, 0x7247, 0x7684, 0x7075, 0x6027,
     0x3002]"

definition photo_local_replies :: "jsstring list" where
  \<comment> \<open>usePhoto: the four local replies\<close>
  "photo_local_replies =
     [[0x54C8, 0x54C8, 0xFF0C, 0x62CD, 0x5F97, 0x4E0D, 0x9519, 0xFF01, 0x8FD9, 0x5F20,
      0x7167, 0x7247, 0x91CC, 0x85CF, 0x7740, 0x6211, 0x7684, 0x79D8, 0x5BC6, 0x5462,
      0x3002],
      [0x54CE, 0x5440, 0xFF0C, 0x88AB, 0x4F60, 0x62CD, 0x5230, 0x4E86, 0xFF01, 0x6211,
      0x6B63, 0x5728, 0x8FD9, 0x91CC, 0x4F11, 0x606F, 0x5462, 0x3002],
      [0x8FD9, 0x5F20, 0x7167, 0x7247, 0x5F88, 0x6709, 0x7075, 0x6027, 0xFF0C, 0x4F60,
      0x80FD, 0x611F, 0x89C9, 0x5230, 0x6211, 0x7684, 0x5B58, 0x5728, 0x5417, 0xFF1F],
      [0x6709, 0x8DA3, 0x7684, 0x89D2, 0x5EA6, 0xFF01, 0x8BA9, 0x6211, 0x7ED9, 0x4F60,
      0x8BB2, 0x8BB2, 0x8FD9, 0x4E2A, 0x5730, 0x65B9, 0x7684, 0x6545, 0x4E8B, 0x002E,
      0x002E, 0x002E]]"

definition txt_photo_uploaded :: jsstring where
  \<comment> \<open>useUploadedPhoto: text of the user message (I uploaded a picture)\<close>
  "txt_photo_uploaded =
     [0x6211, 0x4E0A, 0x4F20, 0x4E86, 0x4E00, 0x5F20, 0x56FE, 0x7247]"

definition txt_let_me_look_upload :: jsstring where
  \<comment> \<open>useUploadedPhoto: progress message (let me see what you uploaded...)\<close>
  "txt_let_me_look_upload =
     [0x8BA9, 0x6211, 0x770B, 0x770B, 0x4F60, 0x4E0A, 0x4F20, 0x4E86, 0x4EC0, 0x4E48,
     0x002E, 0x002E, 0x002E]"

definition upload_local_replies :: "jsstring list" where
  \<comment> \<open>useUploadedPhoto: the five local replies\<close>
  "upload_local_replies =
     [[0x54E6, 0xFF01, 0x8FD9, 0x5F20, 0x7167, 0x7247, 0x5F88, 0x6709, 0x7075, 0x6027,
      0x5462, 0xFF01],
      [0x54C7, 0xFF0C, 0x6211, 0x611F, 0x53D7, 0x5230, 0x4E86, 0x8FD9, 0x5F20, 0x7167,
      0x7247, 0x91CC, 0x7684, 0x6545, 0x4E8B, 0x3002],
      [0x6709, 0x610F, 0x601D, 0xFF0C, 0x8FD9, 0x5F20, 0x7167, 0x7247, 0x91CC, 0x597D,
      0x50CF, 0x85CF, 0x7740, 0x4EC0, 0x4E48, 0x79D8, 0x5BC6, 0x002E, 0x002E, 0x002E],
      [0x597D, 0x7167, 0x7247, 0xFF01, 0x4E07, 0x7269, 0x7686, 0x6709, 0x7075, 0xFF0C,
      0x4F60, 0x62CD, 0x5230, 0x4E86, 0x5B83, 0x7684, 0x7075, 0x9B42, 0x3002],
      [0x8FD9, 0x5F20, 0x7167, 0x7247, 0x8BA9, 0x6211, 0x60F3, 0x8D77, 0x4E86, 0x5F88,
      0x591A, 0x5F80, 0x4E8B, 0x002E, 0x002E, 0x002E]]"

definition alert_no_camera_stream :: jsstring where
  \<comment> \<open>handleCapture: alert (camera not initialised, cannot take a photo)\<close>
  "alert_no_camera_stream =
     [0x76F8, 0x673A, 0x672A, 0x521D, 0x59CB, 0x5316, 0xFF0C, 0x65E0, 0x6CD5, 0x62CD,
     0x7167]"

definition alert_choose_image :: jsstring where
  \<comment> \<open>handleFiles: alert (please choose an image file!)\<close>
  "alert_choose_image =
     [0x8BF7, 0x9009, 0x62E9, 0x56FE, 0x7247, 0x6587, 0x4EF6, 0xFF01]"

definition alert_camera_permission :: jsstring where
  \<comment> \<open>initCamera: alert for NotAllowedError / PermissionDeniedError\<close>
  "alert_camera_permission =
     [0x9700, 0x8981, 0x76F8, 0x673A, 0x6743, 0x9650, 0x624D, 0x80FD, 0x4F7F, 0x7528,
     0x62CD, 0x7167, 0x529F, 0x80FD, 0x3002, 0x8BF7, 0x5728, 0x6D4F, 0x89C8, 0x5668,
     0x8BBE, 0x7F6E, 0x4E2D, 0x5141, 0x8BB8, 0x8BBF, 0x95EE, 0x76F8, 0x673A, 0x3002]"

definition alert_camera_not_found :: jsstring where
  \<comment> \<open>initCamera: alert for NotFoundError\<close>
  "alert_camera_not_found =
     [0x672A, 0x68C0, 0x6D4B, 0x5230, 0x76F8, 0x673A, 0x8BBE, 0x5907, 0x3002]"

definition alert_camera_failed :: jsstring where
  \<comment> \<open>initCamera: prefix of the alert for any other error\<close>
  "alert_camera_failed =
     [0x76F8, 0x673A, 0x521D, 0x59CB, 0x5316, 0x5931, 0x8D25, 0x003A, 0x0020]"

section \<open>script.js: the functions\<close>

text \<open>
  \<open>Math.random()\<close> is an input: a function that draws takes the number drawn, a double
  \<open>r\<close> with \<open>0 \<le> r < 1\<close>, as the real number it is. The product \<open>r * xs.length\<close> is
  computed in doubles: it is the exact product rounded to the nearest double, ties to the
  even one. For the floor of the rounded product only one thing matters: with \<open>j\<close> the
  floor of the exact product, whether the exact product rounds up to \<open>j + 1\<close>. It does
  when it is at least half a gap below \<open>j + 1\<close>, the gap being the distance from
  \<open>j + 1\<close> to the double below it, two to the power of \<open>bits j - 53\<close> (a tie goes to
  \<open>j + 1\<close>, whose significand is even). \<open>bits m\<close> is the number of binary digits of
  \<open>m\<close>. \<open>floor_product r n\<close> is \<open>Math.floor(r * n)\<close>.
\<close>

fun bits :: "nat \<Rightarrow> nat" where
  "bits m = (if m = 0 then 0 else Suc (bits (m div 2)))"

definition gap_below :: "nat \<Rightarrow> real" where
  "gap_below j = 2 ^ bits (j - 1) / 2 ^ 53"

definition floor_product :: "real \<Rightarrow> nat \<Rightarrow> int" where
  "floor_product r n =
     (let p = r * real n; j = \<lfloor>p\<rfloor>
      in if real_of_int (j + 1) - gap_below (nat (j + 1)) / 2 \<le> p then j + 1 else j)"

text \<open>
  \<open>xs[Math.floor(r * xs.length)]\<close> is \<open>undefined\<close> (\<open>None\<close>) when the index is outside
  the array.
\<close>

definition pick :: "real \<Rightarrow> 'a list \<Rightarrow> 'a option" where
  "pick r xs =
     (let i = floor_product r (length xs)
      in if 0 \<le> i \<and> i < int (length xs) then Some (xs ! nat i) else None)"

definition addMessage :: "jsstring \<Rightarrow> jsstring \<Rightarrow> jsstring option \<Rightarrow> state \<Rightarrow> state" where
  "addMessage type' text' image' st =
     st\<lparr>chatMessages := chatMessages st @
          [\<lparr>origin = (if type' = ascii ''user'' then User else Spirit),
            text_content = text',
            image_src = (case image' of None \<Rightarrow> None
                         | Some i \<Rightarrow> if i \<noteq> [] then Some i else None)\<rparr>]\<rparr>"

definition showHomeScreen :: "state \<Rightarrow> state" where
  "showHomeScreen st = st\<lparr>home_active := True, chat_active := False\<rparr>"

definition showChatScreen :: "state \<Rightarrow> state" where
  "showChatScreen st = st\<lparr>home_active := False, chat_active := True\<rparr>"

definition closePhotoModal :: "state \<Rightarrow> state" where
  "closePhotoModal st = st\<lparr>modal_active := False\<rparr>"

definition retakePhoto :: "state \<Rightarrow> state" where
  "retakePhoto st = closePhotoModal st"

definition setTimeout :: "callback \<Rightarrow> real \<Rightarrow> state \<Rightarrow> state" where
  "setTimeout cb ms st = st\<lparr>timers := timers st @ [\<lparr>delay = ms, callback = cb\<rparr>]\<rparr>"

definition alert :: "jsstring \<Rightarrow> state \<Rightarrow> state" where
  "alert m st = st\<lparr>alerts := alerts st @ [m]\<rparr>"

definition send_request :: "request \<Rightarrow> state \<Rightarrow> state" where
  "send_request rq st = st\<lparr>requests := requests st @ [rq]\<rparr>"

subsection \<open>initAPI\<close>

text \<open>
  Up to \<open>await apiClient.checkHealth()\<close>, and from there on with what \<open>fetch\<close> returned.
  The \<open>try\<close> block covers \<open>new APIClient()\<close>: when that throws, the \<open>catch\<close> block
  sets \<open>apiClient\<close> to \<open>null\<close> and no request is sent. It covers the read of
  \<open>health.status\<close> too.
\<close>

definition initAPI :: "bool \<Rightarrow> state \<Rightarrow> state" where
  "initAPI class_in_scope st =
     (case construct_APIClient class_in_scope of
        Inl error \<Rightarrow> st\<lparr>apiClient := None\<rparr>
      | Inr client \<Rightarrow>
          (let st1 = st\<lparr>apiClient := Some client\<rparr>
           in (send_request (checkHealth_request client) st1)\<lparr>awaiting_health := True\<rparr>))"

definition initAPI_resume :: "fetched \<Rightarrow> state \<Rightarrow> state" where
  "initAPI_resume fetched st =
     (case then_do (checkHealth fetched) (\<lambda>health.
           then_do (get_prop health (ascii ''status'')) (\<lambda>status.
           if status = Some (JStr (ascii ''ok''))
           then then_do (get_prop health (ascii ''model_loaded'')) (\<lambda>model_loaded. Inr st)
           else Inr (st\<lparr>apiClient := None\<rparr>)))
      of Inl error \<Rightarrow> st\<lparr>apiClient := None\<rparr>
       | Inr st' \<Rightarrow> st')"

subsection \<open>initCamera\<close>

text \<open>
  \<open>supported\<close> says that \<open>navigator.mediaDevices.getUserMedia\<close> exists; without it the
  function only writes to \<open>locationText\<close>. The rest runs when \<open>getUserMedia\<close> has settled.
\<close>

definition initCamera :: "bool \<Rightarrow> state \<Rightarrow> state" where
  "initCamera supported st = (if \<not> supported then st else st\<lparr>awaiting_camera := True\<rparr>)"

definition initCamera_resume :: "exn + track list \<Rightarrow> state \<Rightarrow> state" where
  "initCamera_resume settled st =
     (case settled of
        Inr stream \<Rightarrow> st\<lparr>currentStream := Some stream\<rparr>
      | Inl error \<Rightarrow>
          if name error = NotAllowedError \<or> name error = PermissionDeniedError
          then alert alert_camera_permission st
          else if name error = NotFoundError
          then alert alert_camera_not_found st
          else alert (alert_camera_failed @ message error) st)"

subsection \<open>initEventListeners\<close>

text \<open>
  Of the listeners it adds, the one on \<open>usePhotoBtn\<close> is kept in the state, since
  \<open>handleFiles\<close> replaces that button; the others stay for the life of the page and are
  wired in \<open>step\<close> below. \<open>addEventListener\<close> ignores a function that is already
  listening; the arrow functions of \<open>handleFiles\<close> are new objects each time. The case
  of a page without the button only makes the function total.
\<close>

definition addEventListener :: "nat \<Rightarrow> listener \<Rightarrow> state \<Rightarrow> state" where
  "addEventListener i l st =
     (if l = Listener_usePhoto \<and> l \<in> set (listeners (buttons st ! i)) then st
      else st\<lparr>buttons := (buttons st)
             [i := (buttons st ! i)\<lparr>listeners := listeners (buttons st ! i) @ [l]\<rparr>]\<rparr>)"

definition initEventListeners :: "state \<Rightarrow> state" where
  "initEventListeners st =
     (case buttons st of
        [] \<Rightarrow> st\<lparr>uncaught := uncaught st @
                 [Exn TypeError (msg_null_read (ascii ''addEventListener''))]\<rparr>
      | usePhotoBtn # others \<Rightarrow> addEventListener 0 Listener_usePhoto st)"

subsection \<open>handleAwaken, handleCapture\<close>

definition handleAwaken :: "state \<Rightarrow> state" where
  "handleAwaken st = showChatScreen (setTimeout ClearAwakenTransform 150 st)"

text \<open>\<open>frame\<close> is what \<open>photoCanvas.toDataURL('image/png')\<close> returns for the current frame.\<close>

definition handleCapture :: "jsstring \<Rightarrow> state \<Rightarrow> state" where
  "handleCapture frame st =
     (let st1 = setTimeout ClearFabTransform 150 st
      in if currentStream st1 = None then alert alert_no_camera_stream st1
         else st1\<lparr>capturedPhoto_src := frame, modal_active := True\<rparr>)"

subsection \<open>usePhoto, useUploadedPhoto\<close>

text \<open>
  Both are async functions: the part up to \<open>await apiClient.identifyImage(imageData)\<close> (or
  to the end, when \<open>apiClient\<close> is \<open>null\<close>) runs at the call; the rest runs when the request
  has settled, and is the same text in both.
\<close>

definition usePhoto :: "state \<Rightarrow> state" where
  "usePhoto st =
     (let imageData = capturedPhoto_src st;
          st1 = addMessage (ascii ''user'') txt_photo_taken (Some imageData) st;
          st2 = closePhotoModal st1;
          st3 = showChatScreen st2
      in case apiClient st3 of
           Some client \<Rightarrow>
             (let st4 = addMessage (ascii ''spirit'') txt_let_me_look None st3;
                  st5 = send_request (identifyImage_request client imageData []) st4
              in st5\<lparr>awaiting_identify := awaiting_identify st5 @ [From_usePhoto]\<rparr>)
         | None \<Rightarrow> setTimeout PhotoLocalReply 1000 st3)"

definition useUploadedPhoto :: "jsstring \<Rightarrow> state \<Rightarrow> state" where
  "useUploadedPhoto imageData st =
     (let st1 = closePhotoModal st;
          st2 = addMessage (ascii ''user'') txt_photo_uploaded (Some imageData) st1;
          st3 = showChatScreen st2
      in case apiClient st3 of
           Some client \<Rightarrow>
             (let st4 = addMessage (ascii ''spirit'') txt_let_me_look_upload None st3;
                  st5 = send_request (identifyImage_request client imageData []) st4
              in st5\<lparr>awaiting_identify := awaiting_identify st5 @ [From_useUploadedPhoto]\<rparr>)
         | None \<Rightarrow> setTimeout UploadLocalReply 1000 st3)"

text \<open>
  The template literal converts each substitution with ToString as soon as it is
  evaluated; any throw inside the \<open>try\<close> block ends in the \<open>catch\<close> block.
\<close>

definition responseText :: "json \<Rightarrow> exn + jsstring" where
  "responseText result =
     then_do (get_prop result (ascii ''description'')) (\<lambda>description.
     then_do (to_string_opt description) (\<lambda>d.
     then_do (get_prop result (ascii ''objects'')) (\<lambda>objects.
     then_do (call_join objects txt_join_sep) (\<lambda>joined.
     Inr (txt_recognised_head @ d @ txt_recognised_mid @ joined)))))"

definition identify_resume :: "fetched \<Rightarrow> state \<Rightarrow> state" where
  "identify_resume fetched st =
     (case then_do (identifyImage fetched) (\<lambda>result.
           then_do (get_prop result (ascii ''success'')) (\<lambda>success.
           if truthy success
           then then_do (responseText result) (\<lambda>t.
                Inr (addMessage (ascii ''spirit'') t None st))
           else Inr (addMessage (ascii ''spirit'') txt_not_identified None st)))
      of Inl error \<Rightarrow> addMessage (ascii ''spirit'') txt_identify_error None st
       | Inr st' \<Rightarrow> st')"

definition usePhoto_resume :: "fetched \<Rightarrow> state \<Rightarrow> state" where
  "usePhoto_resume fetched st = identify_resume fetched st"

definition useUploadedPhoto_resume :: "fetched \<Rightarrow> state \<Rightarrow> state" where
  "useUploadedPhoto_resume fetched st = identify_resume fetched st"

text \<open>
  The callbacks of the two timers. Text that is \<open>undefined\<close> makes an empty
  \<open>textContent\<close>.
\<close>

definition text_or_empty :: "jsstring option \<Rightarrow> jsstring" where
  "text_or_empty t = (case t of None \<Rightarrow> [] | Some s \<Rightarrow> s)"

definition photo_local_reply :: "real \<Rightarrow> state \<Rightarrow> state" where
  "photo_local_reply r st =
     addMessage (ascii ''spirit'') (text_or_empty (pick r photo_local_replies)) None st"

definition upload_local_reply :: "real \<Rightarrow> state \<Rightarrow> state" where
  "upload_local_reply r st =
     addMessage (ascii ''spirit'') (text_or_empty (pick r upload_local_replies)) None st"

subsection \<open>sendMessage, generateSpiritResponse\<close>

text \<open>
  \<open>Object.entries(responses)\<close> lists the four keys in the order they are written. The
  loop returns at the first key other than \<open>default\<close> that the message includes.
\<close>

definition responses :: "(jsstring \<times> jsstring list) list" where
  "responses = [(kw_nihao, greeting_replies), (kw_gushi, story_replies),
                (kw_mingzi, name_replies), (ascii ''default'', default_replies)]"

fun first_match :: "(jsstring \<times> jsstring list) list \<Rightarrow> jsstring \<Rightarrow> jsstring list option" where
  "first_match [] userMessage = None"
| "first_match ((key, value) # entries) userMessage =
     (if key \<noteq> ascii ''default'' \<and> includes_js userMessage key then Some value
      else first_match entries userMessage)"

definition generateSpiritResponse :: "jsstring \<Rightarrow> real \<Rightarrow> jsstring option" where
  "generateSpiritResponse userMessage r =
     (case first_match responses userMessage of
        Some value \<Rightarrow> pick r value
      | None \<Rightarrow> (case map_of responses (ascii ''default'') of
                   Some value \<Rightarrow> pick r value
                 | None \<Rightarrow> None))"

text \<open>
  \<open>r\<close> is the number drawn for the delay; the callback draws its own. The delay is kept
  as the real number \<open>500 + r * 1000\<close>, without the rounding of the double sum and of
  the timer.
\<close>

definition sendMessage :: "real \<Rightarrow> state \<Rightarrow> state" where
  "sendMessage r st =
     (let message' = trim (chatInput_value st)
      in if message' = [] then st
         else (let st1 = addMessage (ascii ''user'') message' None st;
                   st2 = st1\<lparr>chatInput_value := []\<rparr>
               in setTimeout (SpiritResponse message') (500 + r * 1000) st2))"

definition spirit_response :: "jsstring \<Rightarrow> real \<Rightarrow> state \<Rightarrow> state" where
  "spirit_response message' r st =
     addMessage (ascii ''spirit'') (text_or_empty (generateSpiritResponse message' r)) None st"

subsection \<open>handleFiles\<close>

text \<open>
  For every image file a \<open>FileReader\<close> is started. Its \<open>onload\<close> handler, run when the
  file has been read, sets a timer of \<open>index * 100\<close> ms; the callback of that timer shows
  the preview and, for the first file, rebinds the button. A reader is kept as the pair of
  the data URL it will deliver and the index of its file.
\<close>

definition handleFiles :: "file_t list \<Rightarrow> state \<Rightarrow> state" where
  "handleFiles files st =
     (let imageFiles = filter (\<lambda>file. startsWith (ftype file) (ascii ''image/'')) files
      in if length imageFiles = 0 then alert alert_choose_image st
         else st\<lparr>readers := readers st @
                   map (\<lambda>(index, file). (dataURL file, index)) (enumerate 0 imageFiles)\<rparr>)"

definition reader_onload :: "jsstring \<Rightarrow> nat \<Rightarrow> state \<Rightarrow> state" where
  "reader_onload imageData index st =
     setTimeout (ShowPreview imageData index) (real index * 100) st"

text \<open>
  \<open>cloneNode(true)\<close> copies the element without its listeners and without a parent.
  \<open>getElementById\<close> finds the element in the document. \<open>usePhotoBtn.parentNode\<close> is
  \<open>null\<close> once the element has been replaced, and the call of \<open>replaceChild\<close> on it then
  throws a TypeError, which ends the callback.
\<close>

definition cloneNode :: "button \<Rightarrow> button" where
  "cloneNode b = \<lparr>attached = False, listeners = []\<rparr>"

definition getElementById_use_photo_btn :: "state \<Rightarrow> nat option" where
  "getElementById_use_photo_btn st =
     (case filter (\<lambda>i. attached (buttons st ! i)) [0..<length (buttons st)] of
        [] \<Rightarrow> None
      | i # others \<Rightarrow> Some i)"

definition throw_uncaught :: "exn \<Rightarrow> state \<Rightarrow> state" where
  "throw_uncaught e st = st\<lparr>uncaught := uncaught st @ [e]\<rparr>"

definition show_preview :: "jsstring \<Rightarrow> nat \<Rightarrow> state \<Rightarrow> state" where
  "show_preview imageData index st =
     (let st1 = st\<lparr>capturedPhoto_src := imageData, modal_active := True\<rparr>
      in if index = 0
         then (case buttons st1 of
                 [] \<Rightarrow> throw_uncaught (Exn TypeError (msg_null_read (ascii ''cloneNode''))) st1
               | usePhotoBtn # others \<Rightarrow>
                   (let newUsePhotoBtn = length (buttons st1);
                        st2 = st1\<lparr>buttons := buttons st1 @ [cloneNode usePhotoBtn]\<rparr>
                    in if \<not> attached usePhotoBtn
                       then throw_uncaught
                              (Exn TypeError (msg_null_read (ascii ''replaceChild''))) st2
                       else (let st3 = st2\<lparr>buttons := (buttons st2)
                                         [0 := usePhotoBtn\<lparr>attached := False\<rparr>,
                                          newUsePhotoBtn :=
                                            (buttons st2 ! newUsePhotoBtn)\<lparr>attached := True\<rparr>]\<rparr>;
                                 st4 = addEventListener newUsePhotoBtn
                                         (Listener_useUploadedPhoto imageData) st3
                             in case getElementById_use_photo_btn st4 of
                                  None \<Rightarrow> throw_uncaught
                                    (Exn TypeError (msg_null_read (ascii ''addEventListener''))) st4
                                | Some found \<Rightarrow>
                                    addEventListener found
                                      (Listener_useUploadedPhoto imageData) st4)))
         else st1)"

text \<open>
  A click on the button that is in the document runs its listeners in the order they were
  added; each is an async function, run up to its first \<open>await\<close>.
\<close>

definition run_listener :: "listener \<Rightarrow> state \<Rightarrow> state" where
  "run_listener l st =
     (case l of Listener_usePhoto \<Rightarrow> usePhoto st
      | Listener_useUploadedPhoto imageData \<Rightarrow> useUploadedPhoto imageData st)"

definition click_use_photo_btn :: "state \<Rightarrow> state" where
  "click_use_photo_btn st =
     (case getElementById_use_photo_btn st of
        None \<Rightarrow> st
      | Some i \<Rightarrow> foldl (\<lambda>s l. run_listener l s) st (listeners (buttons st ! i)))"

subsection \<open>The listeners for beforeunload and visibilitychange\<close>

definition beforeunload :: "state \<Rightarrow> state" where
  "beforeunload st =
     (case currentStream st of
        None \<Rightarrow> st
      | Some tracks \<Rightarrow> st\<lparr>currentStream := Some (map (\<lambda>track. track\<lparr>stopped := True\<rparr>) tracks)\<rparr>)"

definition visibilitychange :: "bool \<Rightarrow> state \<Rightarrow> state" where
  "visibilitychange hidden st =
     (if hidden
      then (case currentStream st of
              None \<Rightarrow> st
            | Some tracks \<Rightarrow>
                st\<lparr>currentStream := Some (map (\<lambda>track.
                     if kind track = ascii ''video'' then track\<lparr>enabled := False\<rparr> else track)
                     tracks)\<rparr>)
      else (case currentStream st of
              None \<Rightarrow> st
            | Some tracks \<Rightarrow>
                st\<lparr>currentStream := Some (map (\<lambda>track.
                     if kind track = ascii ''video'' then track\<lparr>enabled := True\<rparr> else track)
                     tracks)\<rparr>))"

section \<open>Events\<close>

text \<open>
  Execution is single-threaded: the state changes only when an event is handled, and each
  handler runs to its end, or to its \<open>await\<close>. \<open>DOMContentLoaded\<close> happens once in the
  life of a document; the listeners that \<open>initEventListeners\<close> and \<open>initDropZone\<close> add
  exist from then on, those for \<open>beforeunload\<close> and \<open>visibilitychange\<close> from the start.
  A timer, a reader or a request is named by its position among those pending; an event
  for one that is not pending changes nothing. Timers may fire in any order. The numbers
  that an event carries are the draws of \<open>Math.random()\<close> of its handler.
  \<open>DOMContentLoaded\<close> carries whether the class \<open>APIClient\<close> is in scope and whether the
  browser has \<open>getUserMedia\<close>.
\<close>

datatype event =
    DOMContentLoaded bool bool
  | HealthSettled fetched
  | CameraSettled "exn + track list"
  | IdentifySettled nat fetched
  | TimerFired nat real
  | ReaderLoaded nat
  | InputTyped jsstring
  | ClickAwaken
  | ClickCameraFab jsstring
  | ClickBack
  | ClickSend real
  | KeypressInput jsstring real
  | ClickCloseModal
  | ClickRetake
  | ClickUsePhoto
  | ClickModal bool
  | Dropped "file_t list"
  | FileSelected "file_t list"
  | VisibilityChange bool
  | BeforeUnload

definition remove_nth :: "nat \<Rightarrow> 'a list \<Rightarrow> 'a list" where
  "remove_nth k xs = take k xs @ drop (Suc k) xs"

definition run_callback :: "callback \<Rightarrow> real \<Rightarrow> state \<Rightarrow> state" where
  "run_callback cb r st =
     (case cb of
        ClearAwakenTransform \<Rightarrow> st
      | ClearFabTransform \<Rightarrow> st
      | SpiritResponse message' \<Rightarrow> spirit_response message' r st
      | PhotoLocalReply \<Rightarrow> photo_local_reply r st
      | UploadLocalReply \<Rightarrow> upload_local_reply r st
      | ShowPreview imageData index \<Rightarrow> show_preview imageData index st)"

definition on_load :: "bool \<Rightarrow> bool \<Rightarrow> state \<Rightarrow> state" where
  "on_load class_in_scope camera_supported st =
     (initEventListeners (initCamera camera_supported (initAPI class_in_scope st)))
       \<lparr>loaded := True\<rparr>"

fun step :: "event \<Rightarrow> state \<Rightarrow> state" where
  "step (DOMContentLoaded class_in_scope camera_supported) st =
     (if loaded st then st else on_load class_in_scope camera_supported st)"
| "step (HealthSettled fetched) st =
     (if awaiting_health st then initAPI_resume fetched (st\<lparr>awaiting_health := False\<rparr>)
      else st)"
| "step (CameraSettled settled) st =
     (if awaiting_camera st then initCamera_resume settled (st\<lparr>awaiting_camera := False\<rparr>)
      else st)"
| "step (IdentifySettled k fetched) st =
     (if k < length (awaiting_identify st)
      then (let st1 = st\<lparr>awaiting_identify := remove_nth k (awaiting_identify st)\<rparr>
            in case awaiting_identify st ! k of
                 From_usePhoto \<Rightarrow> usePhoto_resume fetched st1
               | From_useUploadedPhoto \<Rightarrow> useUploadedPhoto_resume fetched st1)
      else st)"
| "step (TimerFired k r) st =
     (if k < length (timers st)
      then run_callback (callback (timers st ! k)) r (st\<lparr>timers := remove_nth k (timers st)\<rparr>)
      else st)"
| "step (ReaderLoaded k) st =
     (if k < length (readers st)
      then reader_onload (fst (readers st ! k)) (snd (readers st ! k))
             (st\<lparr>readers := remove_nth k (readers st)\<rparr>)
      else st)"
| "step (InputTyped s) st = st\<lparr>chatInput_value := s\<rparr>"
| "step ClickAwaken st = (if loaded st then handleAwaken st else st)"
| "step (ClickCameraFab frame) st = (if loaded st then handleCapture frame st else st)"
| "step ClickBack st = (if loaded st then showHomeScreen st else st)"
| "step (ClickSend r) st = (if loaded st then sendMessage r st else st)"
| "step (KeypressInput key r) st =
     (if loaded st \<and> key = ascii ''Enter'' then sendMessage r st else st)"
| "step ClickCloseModal st = (if loaded st then closePhotoModal st else st)"
| "step ClickRetake st = (if loaded st then retakePhoto st else st)"
| "step ClickUsePhoto st = click_use_photo_btn st"
| "step (ClickModal target_is_modal) st =
     (if loaded st \<and> target_is_modal then closePhotoModal st else st)"
| "step (Dropped files) st = (if loaded st then handleFiles files st else st)"
| "step (FileSelected files) st = (if loaded st then handleFiles files st else st)"
| "step (VisibilityChange hidden) st = visibilitychange hidden st"
| "step BeforeUnload st = beforeunload st"

definition run :: "event list \<Rightarrow> state \<Rightarrow> state" where
  "run es st = foldl (\<lambda>s e. step e s) st es"

section \<open>Auxiliary notions for the statements\<close>


text \<open>The message of the second scenario of the specification: six code units that end in \<open>kw_gushi\<close>.\<close>

definition msg_tell_me_a_story :: jsstring where
  "msg_tell_me_a_story = [0x7ED9, 0x6211, 0x8BB2, 0x4E2A, 0x6545, 0x4E8B]"

text \<open>
  The number of health probes among the requests sent so far: the requests with method
  GET to the health endpoint of the configured server.
\<close>

definition health_probes :: "state \<Rightarrow> nat" where
  "health_probes st =
     length (filter (\<lambda>rq. url rq = ascii ''http://localhost:5000/health'' \<and>
                             http_method rq = GET \<and> payload rq = None)
               (requests st))"

text \<open>A health response with status \<open>ok\<close>, and one that reports a server in trouble.\<close>

definition health_response_ok :: fetched where
  "health_response_ok =
     Inr \<lparr>ok = True, body = Inr (JObj [(ascii ''status'', JStr (ascii ''ok'')),
                                        (ascii ''model_loaded'', JBool True)])\<rparr>"

definition health_response_down :: fetched where
  "health_response_down =
     Inr \<lparr>ok = False, body = Inr (JObj [(ascii ''status'', JStr (ascii ''down''))])\<rparr>"

text \<open>
  Sample inputs: a camera stream of one video track, a captured frame, the answer
  \<open>{"success": false}\<close> of the identify endpoint, and two image files.
\<close>

definition sample_stream :: "track list" where
  "sample_stream = [\<lparr>kind = ascii ''video'', enabled = True, stopped = False\<rparr>]"

definition sample_frame :: jsstring where
  "sample_frame = ascii ''data:image/png;base64,AAAA''"

definition identify_response_unrecognised :: fetched where
  "identify_response_unrecognised =
     Inr \<lparr>ok = True, body = Inr (JObj [(ascii ''success'', JBool False)])\<rparr>"

definition file_A :: file_t where
  "file_A = \<lparr>ftype = ascii ''image/png'', dataURL = ascii ''data:image/png;base64,AAAA''\<rparr>"

definition file_B :: file_t where
  "file_B = \<lparr>ftype = ascii ''image/jpeg'', dataURL = ascii ''data:image/jpeg;base64,BBBB''\<rparr>"

text \<open>The listeners that a click on the use-photo button of the document runs.\<close>

definition use_photo_listeners :: "state \<Rightarrow> listener list" where
  "use_photo_listeners st =
     (case getElementById_use_photo_btn st of
        None \<Rightarrow> []
      | Some i \<Rightarrow> listeners (buttons st ! i))"

text \<open>\<open>labels.join(sep)\<close> for an array of strings.\<close>

fun join_strings :: "jsstring \<Rightarrow> jsstring list \<Rightarrow> jsstring" where
  "join_strings sep [] = []"
| "join_strings sep [label] = label"
| "join_strings sep (label # next_label # labels) =
     label @ sep @ join_strings sep (next_label # labels)"

section \<open>Properties of the client (api.js)\<close>

lemma ascii_status_neq_error: "ascii ''status'' \<noteq> ascii ''error''"
  by (simp add: ascii_def)

lemma checkHealth_rejected:
  "checkHealth (Inl error) =
     Inr (JObj [(ascii ''status'', JStr (ascii ''error'')), (ascii ''error'', JStr (message error))])"
  by (simp add: checkHealth_def try_catch_def then_do_def)

lemma checkHealth_undecodable:
  "body response = Inl error \<Longrightarrow>
   checkHealth (Inr response) =
     Inr (JObj [(ascii ''status'', JStr (ascii ''error'')), (ascii ''error'', JStr (message error))])"
  by (simp add: checkHealth_def try_catch_def then_do_def)

lemma checkHealth_decoded:
  "body response = Inr data \<Longrightarrow> checkHealth (Inr response) = Inr data"
  by (simp add: checkHealth_def try_catch_def then_do_def)

text \<open>
  C5. \<open>checkHealth\<close> never throws: whatever \<open>fetch\<close> returned, it returns a value. When
  \<open>fetch\<close> was rejected, or the body could not be decoded, the value returned has the
  \<open>status\<close> \<open>error\<close>; when the body was decoded, the value returned is the decoded body.
\<close>

theorem checkHealth_never_throws:
  "(\<exists>result. checkHealth fetched = Inr result) \<and>
   (\<forall>error. fetched = Inl error \<longrightarrow>
      (\<exists>result. checkHealth fetched = Inr result \<and>
         get_prop result (ascii ''status'') = Inr (Some (JStr (ascii ''error''))))) \<and>
   (\<forall>response error. fetched = Inr response \<and> body response = Inl error \<longrightarrow>
      (\<exists>result. checkHealth fetched = Inr result \<and>
         get_prop result (ascii ''status'') = Inr (Some (JStr (ascii ''error''))))) \<and>
   (\<forall>response data. fetched = Inr response \<and> body response = Inr data \<longrightarrow>
      checkHealth fetched = Inr data)"
proof (cases fetched)
  case (Inl error)
  then show ?thesis by (simp add: checkHealth_rejected)
next
  case (Inr response)
  show ?thesis
  proof (cases "body response")
    case (Inl error)
    with Inr show ?thesis by (simp add: checkHealth_undecodable)
  next
    case (Inr data)
    with \<open>fetched = Inr response\<close> show ?thesis by (simp add: checkHealth_decoded)
  qed
qed

theorem checkHealth_never_throws_witness:
  "(\<exists>result. checkHealth (Inl (Exn TypeError (ascii ''Failed to fetch''))) = Inr result \<and>
      get_prop result (ascii ''status'') = Inr (Some (JStr (ascii ''error'')))) \<and>
   checkHealth (Inr \<lparr>ok = False, body = Inr (JNum True (ascii ''7''))\<rparr>) = Inr (JNum True (ascii ''7''))"
  using checkHealth_never_throws [of "Inl (Exn TypeError (ascii ''Failed to fetch''))"]
    checkHealth_never_throws [of "Inr \<lparr>ok = False, body = Inr (JNum True (ascii ''7''))\<rparr>"]
  by simp

lemma identifyImage_ok:
  "ok response \<Longrightarrow> body response = Inr data \<Longrightarrow> identifyImage (Inr response) = Inr data"
  by (simp add: identifyImage_def try_catch_def then_do_def)

lemma chat_ok:
  "ok response \<Longrightarrow> body response = Inr data \<Longrightarrow> chat (Inr response) = Inr data"
  by (simp add: chat_def try_catch_def then_do_def)

lemma or_else_truthy: "truthy e \<Longrightarrow> to_string (or_else e d) = to_string_opt e"
  by (cases e) (simp_all add: or_else_def to_string_opt_def)

lemma or_else_falsy: "\<not> truthy e \<Longrightarrow> or_else e d = JStr d"
  by (cases e) (simp_all add: or_else_def)

lemma identifyImage_not_ok:
  "\<not> ok response \<Longrightarrow> body response = Inr data \<Longrightarrow> get_prop data (ascii ''error'') = Inr e \<Longrightarrow>
   identifyImage (Inr response) =
     (if truthy e then (case to_string_opt e of Inl t \<Rightarrow> Inl t | Inr m \<Rightarrow> Inl (Exn Error m))
      else Inl (Exn Error msg_identify_failed))"
  by (simp add: identifyImage_def try_catch_def then_do_def throw_new_Error_def
      or_else_truthy or_else_falsy split: sum.splits)

lemma chat_not_ok:
  "\<not> ok response \<Longrightarrow> body response = Inr data \<Longrightarrow> get_prop data (ascii ''error'') = Inr e \<Longrightarrow>
   chat (Inr response) =
     (if truthy e then (case to_string_opt e of Inl t \<Rightarrow> Inl t | Inr m \<Rightarrow> Inl (Exn Error m))
      else Inl (Exn Error msg_chat_failed))"
  by (simp add: chat_def try_catch_def then_do_def throw_new_Error_def
      or_else_truthy or_else_falsy split: sum.splits)

lemma identifyImage_rethrows:
  "identifyImage (Inl error) = Inl error"
  "body response = Inl error \<Longrightarrow> identifyImage (Inr response) = Inl error"
  "\<not> ok response \<Longrightarrow> body response = Inr data \<Longrightarrow>
   get_prop data (ascii ''error'') = Inl error \<Longrightarrow> identifyImage (Inr response) = Inl error"
  by (simp_all add: identifyImage_def try_catch_def then_do_def)

lemma chat_rethrows:
  "chat (Inl error) = Inl error"
  "body response = Inl error \<Longrightarrow> chat (Inr response) = Inl error"
  "\<not> ok response \<Longrightarrow> body response = Inr data \<Longrightarrow>
   get_prop data (ascii ''error'') = Inl error \<Longrightarrow> chat (Inr response) = Inl error"
  by (simp_all add: chat_def try_catch_def then_do_def)

lemma not_ok_throws:
  assumes "\<not> ok response"
  shows "\<exists>error. identifyImage (Inr response) = Inl error"
    and "\<exists>error. chat (Inr response) = Inl error"
proof -
  have "(\<exists>error. identifyImage (Inr response) = Inl error) \<and>
        (\<exists>error. chat (Inr response) = Inl error)"
  proof (cases "body response")
    case (Inl error)
    then show ?thesis by (simp add: identifyImage_rethrows chat_rethrows)
  next
    case data: (Inr data)
    show ?thesis
    proof (cases "get_prop data (ascii ''error'')")
      case (Inl error)
      with assms data show ?thesis by (simp add: identifyImage_rethrows chat_rethrows)
    next
      case (Inr e)
      with assms data show ?thesis
        by (cases "to_string_opt e") (simp_all add: identifyImage_not_ok chat_not_ok)
    qed
  qed
  then show "\<exists>error. identifyImage (Inr response) = Inl error"
    and "\<exists>error. chat (Inr response) = Inl error" by simp_all
qed

text \<open>
  C6, as the code has it. For \<open>identifyImage\<close> and for \<open>chat\<close>: a response with a success
  status and a decodable body returns the decoded body. A rejected \<open>fetch\<close> and a body
  that cannot be decoded are thrown on as they are. A response with another status always
  throws. When its decoded body is not \<open>null\<close>, what is thrown is an \<open>Error\<close> whose message
  is the \<open>error\<close> field of the body converted to a string when that field is truthy (for a
  non-empty string, the string itself), and the generic message of the method when the
  field is missing or falsy; when the field is truthy and cannot be converted, it is the
  TypeError of the conversion. When the decoded body is \<open>null\<close>, it is the TypeError of
  the read of \<open>data.error\<close>.
\<close>

theorem identifyImage_chat_status_mapping:
  "(ok response \<and> body response = Inr data \<longrightarrow>
      identifyImage (Inr response) = Inr data \<and> chat (Inr response) = Inr data) \<and>
   identifyImage (Inl rejection) = Inl rejection \<and> chat (Inl rejection) = Inl rejection \<and>
   (body response = Inl undecodable \<longrightarrow>
      identifyImage (Inr response) = Inl undecodable \<and>
      chat (Inr response) = Inl undecodable) \<and>
   (\<not> ok response \<longrightarrow>
      (\<exists>error. identifyImage (Inr response) = Inl error) \<and>
      (\<exists>error. chat (Inr response) = Inl error)) \<and>
   (\<not> ok response \<and> body response = Inr JNull \<longrightarrow>
      identifyImage (Inr response) = Inl (Exn TypeError (msg_null_read (ascii ''error''))) \<and>
      chat (Inr response) = Inl (Exn TypeError (msg_null_read (ascii ''error'')))) \<and>
   (\<not> ok response \<and> body response = Inr data \<and> get_prop data (ascii ''error'') = Inr e \<and>
    truthy e \<and> to_string_opt e = Inr m \<longrightarrow>
      identifyImage (Inr response) = Inl (Exn Error m) \<and>
      chat (Inr response) = Inl (Exn Error m)) \<and>
   (\<not> ok response \<and> body response = Inr data \<and> get_prop data (ascii ''error'') = Inr e \<and>
    truthy e \<and> to_string_opt e = Inl unconvertible \<longrightarrow>
      identifyImage (Inr response) = Inl unconvertible \<and>
      chat (Inr response) = Inl unconvertible) \<and>
   (\<not> ok response \<and> body response = Inr data \<and>
    get_prop data (ascii ''error'') = Inr (Some (JStr s)) \<and> s \<noteq> [] \<longrightarrow>
      identifyImage (Inr response) = Inl (Exn Error s) \<and>
      chat (Inr response) = Inl (Exn Error s)) \<and>
   (\<not> ok response \<and> body response = Inr data \<and> get_prop data (ascii ''error'') = Inr e \<and>
    \<not> truthy e \<longrightarrow>
      identifyImage (Inr response) = Inl (Exn Error msg_identify_failed) \<and>
      chat (Inr response) = Inl (Exn Error msg_chat_failed))"
proof (intro conjI impI)
  assume "ok response \<and> body response = Inr data"
  then show "identifyImage (Inr response) = Inr data" and "chat (Inr response) = Inr data"
    by (simp_all add: identifyImage_ok chat_ok)
next
  show "identifyImage (Inl rejection) = Inl rejection" and "chat (Inl rejection) = Inl rejection"
    by (simp_all add: identifyImage_rethrows chat_rethrows)
next
  assume "body response = Inl undecodable"
  then show "identifyImage (Inr response) = Inl undecodable"
    and "chat (Inr response) = Inl undecodable"
    by (simp_all add: identifyImage_rethrows chat_rethrows)
next
  assume "\<not> ok response"
  then show "\<exists>error. identifyImage (Inr response) = Inl error"
    and "\<exists>error. chat (Inr response) = Inl error"
    by (rule not_ok_throws)+
next
  assume h: "\<not> ok response \<and> body response = Inr JNull"
  then show "identifyImage (Inr response) = Inl (Exn TypeError (msg_null_read (ascii ''error'')))"
    by (simp add: identifyImage_rethrows(3) [of response JNull])
  from h show "chat (Inr response) = Inl (Exn TypeError (msg_null_read (ascii ''error'')))"
    by (simp add: chat_rethrows(3) [of response JNull])
next
  assume h: "\<not> ok response \<and> body response = Inr data \<and>
     get_prop data (ascii ''error'') = Inr e \<and> truthy e \<and> to_string_opt e = Inr m"
  then show "identifyImage (Inr response) = Inl (Exn Error m)"
    by (simp add: identifyImage_not_ok [of response data e])
  from h show "chat (Inr response) = Inl (Exn Error m)"
    by (simp add: chat_not_ok [of response data e])
next
  assume h: "\<not> ok response \<and> body response = Inr data \<and>
     get_prop data (ascii ''error'') = Inr e \<and> truthy e \<and> to_string_opt e = Inl unconvertible"
  then show "identifyImage (Inr response) = Inl unconvertible"
    by (simp add: identifyImage_not_ok [of response data e])
  from h show "chat (Inr response) = Inl unconvertible"
    by (simp add: chat_not_ok [of response data e])
next
  assume h: "\<not> ok response \<and> body response = Inr data \<and>
     get_prop data (ascii ''error'') = Inr (Some (JStr s)) \<and> s \<noteq> []"
  then show "identifyImage (Inr response) = Inl (Exn Error s)"
    by (simp add: identifyImage_not_ok [of response data "Some (JStr s)"] to_string_opt_def)
  from h show "chat (Inr response) = Inl (Exn Error s)"
    by (simp add: chat_not_ok [of response data "Some (JStr s)"] to_string_opt_def)
next
  assume h: "\<not> ok response \<and> body response = Inr data \<and>
     get_prop data (ascii ''error'') = Inr e \<and> \<not> truthy e"
  then show "identifyImage (Inr response) = Inl (Exn Error msg_identify_failed)"
    by (simp add: identifyImage_not_ok [of response data e])
  from h show "chat (Inr response) = Inl (Exn Error msg_chat_failed)"
    by (simp add: chat_not_ok [of response data e])
qed

theorem identifyImage_chat_status_mapping_witness:
  "identifyImage (Inr \<lparr>ok = False, body = Inr (JObj [(ascii ''error'', JStr (ascii ''boom''))])\<rparr>)
     = Inl (Exn Error (ascii ''boom'')) \<and>
   chat (Inr \<lparr>ok = False, body = Inr (JObj [(ascii ''success'', JBool False)])\<rparr>)
     = Inl (Exn Error msg_chat_failed) \<and>
   identifyImage (Inr \<lparr>ok = True, body = Inr (JObj [(ascii ''success'', JBool True)])\<rparr>)
     = Inr (JObj [(ascii ''success'', JBool True)]) \<and>
   identifyImage (Inr \<lparr>ok = False, body = Inl (Exn SyntaxError (ascii ''Unexpected token''))\<rparr>)
     = Inl (Exn SyntaxError (ascii ''Unexpected token''))"
  using identifyImage_chat_status_mapping
      [of "\<lparr>ok = False, body = Inr (JObj [(ascii ''error'', JStr (ascii ''boom''))])\<rparr>"
          "JObj [(ascii ''error'', JStr (ascii ''boom''))]" _ _ "Some (JStr (ascii ''boom''))"
          "ascii ''boom''" _ "ascii ''boom''"]
    identifyImage_chat_status_mapping
      [of "\<lparr>ok = False, body = Inr (JObj [(ascii ''success'', JBool False)])\<rparr>"
          "JObj [(ascii ''success'', JBool False)]" _ _ None]
    identifyImage_chat_status_mapping
      [of "\<lparr>ok = True, body = Inr (JObj [(ascii ''success'', JBool True)])\<rparr>"
          "JObj [(ascii ''success'', JBool True)]"]
    identifyImage_chat_status_mapping
      [of "\<lparr>ok = False, body = Inl (Exn SyntaxError (ascii ''Unexpected token''))\<rparr>"
          _ _ "Exn SyntaxError (ascii ''Unexpected token'')"]
  by (simp add: ascii_def to_string_opt_def)

text \<open>
  C6 as stated fails at two responses with status 500. The body \<open>{"error": ""}\<close> has the
  field, and the message thrown is the generic one, not the field. The body \<open>null\<close> has no
  field, and what is thrown is the TypeError of the property read, not an \<open>Error\<close> with
  the generic message.
\<close>

theorem identifyImage_error_field_counterexample:
  "get_prop (JObj [(ascii ''error'', JStr [])]) (ascii ''error'') = Inr (Some (JStr [])) \<and>
   identifyImage (Inr \<lparr>ok = False, body = Inr (JObj [(ascii ''error'', JStr [])])\<rparr>)
     = Inl (Exn Error msg_identify_failed) \<and>
   msg_identify_failed \<noteq> [] \<and>
   identifyImage (Inr \<lparr>ok = False, body = Inr JNull\<rparr>)
     = Inl (Exn TypeError (msg_null_read (ascii ''error''))) \<and>
   chat (Inr \<lparr>ok = False, body = Inr JNull\<rparr>)
     = Inl (Exn TypeError (msg_null_read (ascii ''error'')))"
  by (simp add: identifyImage_def chat_def try_catch_def then_do_def throw_new_Error_def
      or_else_def msg_identify_failed_def)

section \<open>Properties of the keyword responder\<close>

lemma bits_bound: "1 \<le> m \<Longrightarrow> 2 ^ bits m \<le> 2 * m"
proof (induction m rule: bits.induct)
  case (1 m)
  show ?case
  proof (cases "m div 2 = 0")
    case True
    with "1.prems" have "m = 1" by (simp add: div_eq_0_iff)
    then show ?thesis by simp
  next
    case False
    then have "1 \<le> m div 2" by simp
    with "1.IH" "1.prems" have "2 ^ bits (m div 2) \<le> 2 * (m div 2)" by simp
    then have "2 * 2 ^ bits (m div 2) \<le> 2 * m" by simp
    moreover have "bits m = Suc (bits (m div 2))" using "1.prems" by simp
    ultimately show ?thesis by simp
  qed
qed

lemma bits_pred_bound: "1 \<le> n \<Longrightarrow> 2 ^ bits (n - 1) < 2 * n"
proof (cases "n - 1 = 0")
  case True
  assume "1 \<le> n"
  with True show ?thesis by simp
next
  case False
  assume "1 \<le> n"
  with False have "2 ^ bits (n - 1) \<le> 2 * (n - 1)" by (intro bits_bound) simp
  also have "\<dots> < 2 * n" using \<open>1 \<le> n\<close> by simp
  finally show ?thesis .
qed

declare bits.simps [simp del]

text \<open>
  A double below one is at most \<open>1 - 2^-53\<close>. For such a draw the index is inside the
  array, although the rounded product may be one more than the floor of the exact one.
\<close>

lemma floor_product_range:
  assumes "0 \<le> r" and "r \<le> 1 - 1 / 2 ^ 53" and "1 \<le> n"
  shows "0 \<le> floor_product r n" and "floor_product r n < int n"
proof -
  let ?p = "r * real n"
  let ?j = "\<lfloor>?p\<rfloor>"
  have n: "0 < real n" using \<open>1 \<le> n\<close> by simp
  have "0 \<le> ?p" using \<open>0 \<le> r\<close> by simp
  then have lo: "0 \<le> ?j" by simp
  have p_le: "?p \<le> (1 - 1 / 2 ^ 53) * real n"
    using assms(2) n by (intro mult_right_mono) simp_all
  then have "?p < real n" using n by (simp add: algebra_simps)
  then have "?p < real_of_int (int n)" by simp
  then have hi: "?j < int n" by (simp only: floor_less_iff)
  show "0 \<le> floor_product r n"
    using lo by (simp add: floor_product_def Let_def)
  show "floor_product r n < int n"
  proof (cases "?j + 1 < int n")
    case True
    then show ?thesis by (simp add: floor_product_def Let_def)
  next
    case False
    with hi have j: "?j + 1 = int n" by simp
    have "(2::real) ^ bits (n - 1) < 2 * real n"
      using bits_pred_bound [OF \<open>1 \<le> n\<close>]
      by (metis of_nat_less_iff of_nat_mult of_nat_numeral of_nat_power)
    then have "gap_below n / 2 < real n / 2 ^ 53"
      by (simp add: gap_below_def field_simps)
    with p_le have "?p < real n - gap_below n / 2"
      by (simp add: algebra_simps)
    then have "\<not> real_of_int (?j + 1) - gap_below (nat (?j + 1)) / 2 \<le> ?p"
      by (simp add: j)
    then have "floor_product r n = ?j" by (simp add: floor_product_def Let_def)
    with hi show ?thesis by simp
  qed
qed

lemma pick_member:
  assumes "0 \<le> r" and "r \<le> 1 - 1 / 2 ^ 53" and "xs \<noteq> []"
  shows "\<exists>x. pick r xs = Some x \<and> x \<in> set xs"
proof -
  let ?i = "floor_product r (length xs)"
  have "1 \<le> length xs" using \<open>xs \<noteq> []\<close> by (cases xs) simp_all
  from floor_product_range [OF assms(1,2) this]
  have lo: "0 \<le> ?i" and hi: "?i < int (length xs)" .
  then have "nat ?i < length xs" by linarith
  then have "xs ! nat ?i \<in> set xs" by simp
  moreover have "pick r xs = Some (xs ! nat ?i)" using lo hi by (simp add: pick_def)
  ultimately show ?thesis by blast
qed

text \<open>The draws used in the examples: 0 gives the first element, one half the middle one of three.\<close>

lemma floor_product_zero: "floor_product 0 n = 0"
  by (simp add: floor_product_def gap_below_def bits.simps [of 0])

lemma pick_zero: "pick 0 (x # xs) = Some x"
  by (simp add: pick_def floor_product_zero)

text \<open>
  A draw where the rounding shows: the double just below two thirds. Its exact product with
  3 is \<open>2 - 2^-53\<close>, half way between 2 and the double below 2, and rounds to 2.
\<close>

lemma floor_product_rounds_up: "floor_product ((2 ^ 54 - 1) / (3 * 2 ^ 53)) 3 = 2"
proof -
  have p: "(2 ^ 54 - 1) / (3 * 2 ^ 53) * real 3 = (2::real) - 1 / 2 ^ 53" by simp
  have "\<lfloor>(2::real) - 1 / 2 ^ 53\<rfloor> = 1" by (simp add: floor_eq_iff)
  moreover have "bits 1 = 1" by (simp add: bits.simps [of "Suc 0"] bits.simps [of 0])
  ultimately show ?thesis
    unfolding floor_product_def p by (simp add: gap_below_def)
qed

lemma floor_product_half_three: "floor_product (1 / 2) 3 = 1"
proof -
  have "\<lfloor>(3::real) / 2\<rfloor> = 1" by simp
  moreover have "bits 1 = 1" by (simp add: bits.simps [of "Suc 0"] bits.simps [of 0])
  ultimately show ?thesis by (simp add: floor_product_def gap_below_def)
qed

lemma startsWith_iff: "startsWith s p \<longleftrightarrow> (\<exists>q. s = p @ q)"
proof
  assume "startsWith s p"
  then have "s = p @ drop (length p) s"
    unfolding startsWith_def by (metis append_take_drop_id)
  then show "\<exists>q. s = p @ q" ..
next
  assume "\<exists>q. s = p @ q"
  then show "startsWith s p" by (auto simp: startsWith_def)
qed

lemma includes_js_iff: "includes_js s key \<longleftrightarrow> (\<exists>p q. s = p @ key @ q)"
proof (induction s)
  case Nil
  show ?case by auto
next
  case (Cons c cs)
  show ?case
  proof
    assume "includes_js (c # cs) key"
    then consider "startsWith (c # cs) key" | "includes_js cs key" by auto
    then show "\<exists>p q. c # cs = p @ key @ q"
    proof cases
      case 1
      then obtain q where "c # cs = key @ q" by (auto simp: startsWith_iff)
      then have "c # cs = [] @ key @ q" by simp
      then show ?thesis by blast
    next
      case 2
      then obtain p q where "cs = p @ key @ q" using Cons.IH by blast
      then have "c # cs = (c # p) @ key @ q" by simp
      then show ?thesis by blast
    qed
  next
    assume "\<exists>p q. c # cs = p @ key @ q"
    then obtain p q where pq: "c # cs = p @ key @ q" by blast
    show "includes_js (c # cs) key"
    proof (cases p)
      case Nil
      with pq have "startsWith (c # cs) key" by (auto simp: startsWith_iff)
      then show ?thesis by simp
    next
      case (Cons a p')
      with pq have "cs = p' @ key @ q" by simp
      then have "includes_js cs key" using Cons.IH by blast
      then show ?thesis by simp
    qed
  qed
qed

lemma keys_not_default:
  "kw_nihao \<noteq> ascii ''default''" "kw_gushi \<noteq> ascii ''default''" "kw_mingzi \<noteq> ascii ''default''"
  by (simp_all add: kw_nihao_def kw_gushi_def kw_mingzi_def ascii_def)

lemma first_match_responses:
  "first_match responses userMessage =
     (if includes_js userMessage kw_nihao then Some greeting_replies
      else if includes_js userMessage kw_gushi then Some story_replies
      else if includes_js userMessage kw_mingzi then Some name_replies
      else None)"
  by (simp add: responses_def keys_not_default)

lemma map_of_responses_default: "map_of responses (ascii ''default'') = Some default_replies"
  using keys_not_default by (simp add: responses_def)

lemma generateSpiritResponse_eq:
  "generateSpiritResponse userMessage r =
     (if includes_js userMessage kw_nihao then pick r greeting_replies
      else if includes_js userMessage kw_gushi then pick r story_replies
      else if includes_js userMessage kw_mingzi then pick r name_replies
      else pick r default_replies)"
  by (simp add: generateSpiritResponse_def first_match_responses map_of_responses_default)

lemma reply_sets_nonempty:
  "greeting_replies \<noteq> []" "story_replies \<noteq> []" "name_replies \<noteq> []" "default_replies \<noteq> []"
  by (simp_all add: greeting_replies_def story_replies_def name_replies_def default_replies_def)

text \<open>
  C4, as the code has it. For every message and every draw \<open>r\<close> of \<open>Math.random()\<close>
  (a double that is at least 0 and below 1, so at most \<open>1 - 2^-53\<close>),
  \<open>generateSpiritResponse\<close> returns a reply, and the reply is a greeting reply when the
  message contains the hello key; else a story reply when it contains the story key; else
  a name reply when it contains the name key; else a default reply. Containing is being a
  substring. So a message with the hello key gets a greeting, and a message with the story
  key and without the hello key gets a story reply.
\<close>

theorem generateSpiritResponse_first_match:
  assumes "0 \<le> r" and "r \<le> 1 - 1 / 2 ^ 53"
  shows "\<exists>reply. generateSpiritResponse userMessage r = Some reply \<and>
     (if (\<exists>p q. userMessage = p @ kw_nihao @ q) then reply \<in> set greeting_replies
      else if (\<exists>p q. userMessage = p @ kw_gushi @ q) then reply \<in> set story_replies
      else if (\<exists>p q. userMessage = p @ kw_mingzi @ q) then reply \<in> set name_replies
      else reply \<in> set default_replies)"
proof -
  have g: "\<exists>x. pick r greeting_replies = Some x \<and> x \<in> set greeting_replies"
    and s: "\<exists>x. pick r story_replies = Some x \<and> x \<in> set story_replies"
    and n: "\<exists>x. pick r name_replies = Some x \<and> x \<in> set name_replies"
    and d: "\<exists>x. pick r default_replies = Some x \<and> x \<in> set default_replies"
    using assms by (simp_all add: pick_member reply_sets_nonempty)
  show ?thesis
    unfolding includes_js_iff [symmetric] generateSpiritResponse_eq
    using g s n d by simp
qed

theorem generateSpiritResponse_first_match_witness:
  "(0::real) \<le> 1 / 2 \<and> (1 / 2 ::real) \<le> 1 - 1 / 2 ^ 53 \<and>
   msg_tell_me_a_story = [0x7ED9, 0x6211, 0x8BB2, 0x4E2A] @ kw_gushi @ [] \<and>
   \<not> includes_js msg_tell_me_a_story kw_nihao \<and>
   (\<exists>reply. generateSpiritResponse msg_tell_me_a_story (1 / 2) = Some reply \<and>
      reply \<in> set story_replies)"
proof -
  have h: "(0::real) \<le> 1 / 2" "(1 / 2 ::real) \<le> 1 - 1 / 2 ^ 53" by simp_all
  have story: "msg_tell_me_a_story = [0x7ED9, 0x6211, 0x8BB2, 0x4E2A] @ kw_gushi @ []"
    by (simp add: msg_tell_me_a_story_def kw_gushi_def)
  then have yes: "\<exists>p q. msg_tell_me_a_story = p @ kw_gushi @ q" by blast
  have no: "\<not> includes_js msg_tell_me_a_story kw_nihao"
    by (simp add: msg_tell_me_a_story_def kw_nihao_def startsWith_def)
  then have no': "\<not> (\<exists>p q. msg_tell_me_a_story = p @ kw_nihao @ q)"
    using includes_js_iff by blast
  from generateSpiritResponse_first_match [OF h, of msg_tell_me_a_story] yes no'
  have "\<exists>reply. generateSpiritResponse msg_tell_me_a_story (1 / 2) = Some reply \<and>
      reply \<in> set story_replies"
    by simp
  with h story no show ?thesis by blast
qed

text \<open>
  C4 as stated fails at the message made of the hello key followed by the story key: it
  contains the story key, and the reply (for the draw 0) is the first greeting reply, which
  is not a story reply.
\<close>

theorem generateSpiritResponse_story_counterexample:
  "includes_js (kw_nihao @ kw_gushi) kw_gushi \<and>
   generateSpiritResponse (kw_nihao @ kw_gushi) 0 = Some (greeting_replies ! 0) \<and>
   greeting_replies ! 0 \<notin> set story_replies"
  by (simp add: generateSpiritResponse_eq pick_zero kw_nihao_def kw_gushi_def startsWith_def
      greeting_replies_def story_replies_def)

section \<open>Properties of the handlers (script.js)\<close>

lemma trim_empty_iff: "trim s = [] \<longleftrightarrow> (\<forall>c \<in> set s. is_white c)"
proof
  assume "trim s = []"
  then have "dropWhile is_white (rev (dropWhile is_white s)) = []"
    by (simp add: trim_def)
  then have "\<forall>c \<in> set (dropWhile is_white s). is_white c"
    by (simp add: dropWhile_eq_Nil_conv)
  then have "dropWhile is_white s = []"
    by (metis hd_dropWhile list.set_sel(1))
  then show "\<forall>c \<in> set s. is_white c"
    by (simp add: dropWhile_eq_Nil_conv)
next
  assume "\<forall>c \<in> set s. is_white c"
  then have "dropWhile is_white s = []" by (simp only: dropWhile_eq_Nil_conv)
  then have "trim s = rev (dropWhile is_white (rev []))" by (simp only: trim_def)
  then show "trim s = []" by simp
qed

text \<open>
  C7. When the text of the input is empty or consists of white space only, \<open>sendMessage\<close>
  returns the state it was given: nothing is appended to the transcript, no timer is set,
  the input keeps its text. So do the click on the send button and the Enter key.
\<close>

theorem sendMessage_blank_noop:
  assumes "\<forall>c \<in> set (chatInput_value st). is_white c"
  shows "sendMessage r st = st \<and> step (ClickSend r) st = st \<and> step (KeypressInput key r) st = st"
proof -
  have "trim (chatInput_value st) = []" using assms by (simp only: trim_empty_iff)
  then have "sendMessage r st = st" by (simp add: sendMessage_def)
  then show ?thesis by simp
qed

theorem sendMessage_blank_noop_witness:
  "trim (chatInput_value (init_state\<lparr>loaded := True, chatInput_value := ascii '' ''\<rparr>)) = [] \<and>
   step (ClickSend (1 / 2)) (init_state\<lparr>loaded := True, chatInput_value := ascii '' ''\<rparr>)
     = init_state\<lparr>loaded := True, chatInput_value := ascii '' ''\<rparr> \<and>
   chatMessages (sendMessage (1 / 2) (init_state\<lparr>loaded := True, chatInput_value := ascii '' ''\<rparr>))
     = [] \<and>
   timers (sendMessage (1 / 2) (init_state\<lparr>loaded := True, chatInput_value := ascii '' ''\<rparr>))
     = []"
proof -
  let ?st = "init_state\<lparr>loaded := True, chatInput_value := ascii '' ''\<rparr>"
  have h: "\<forall>c \<in> set (chatInput_value ?st). is_white c"
    by (simp add: ascii_def is_white_def)
  have e: "chatMessages ?st = [] \<and> timers ?st = []" by (simp add: init_state_def)
  have t: "trim (chatInput_value ?st) = []" using h by (simp only: trim_empty_iff)
  from sendMessage_blank_noop [OF h, of "1 / 2" "ascii ''Enter''"] t e show ?thesis by simp
qed

lemma readers_started:
  "map (fst \<circ> (\<lambda>(index, file). (dataURL file, index))) (enumerate n imageFiles)
     = map dataURL imageFiles"
  by (induction imageFiles arbitrary: n) simp_all

text \<open>
  C8. \<open>handleFiles\<close> starts a reader for the image-typed entries of the list and for no
  other entry. When the list has no image-typed entry, the alert is shown and nothing else
  changes: the overlay and the picture in it, the transcript, the screens, the button,
  the timers and the readers are as before.
\<close>

theorem handleFiles_no_image:
  "map fst (readers (handleFiles files st)) =
     map fst (readers st) @
     map dataURL (filter (\<lambda>file. startsWith (ftype file) (ascii ''image/'')) files) \<and>
   ((\<forall>file \<in> set files. \<not> startsWith (ftype file) (ascii ''image/'')) \<longrightarrow>
      handleFiles files st = st\<lparr>alerts := alerts st @ [alert_choose_image]\<rparr> \<and>
      modal_active (handleFiles files st) = modal_active st \<and>
      capturedPhoto_src (handleFiles files st) = capturedPhoto_src st \<and>
      chatMessages (handleFiles files st) = chatMessages st \<and>
      readers (handleFiles files st) = readers st \<and>
      timers (handleFiles files st) = timers st \<and>
      buttons (handleFiles files st) = buttons st)"
proof -
  let ?images = "filter (\<lambda>file. startsWith (ftype file) (ascii ''image/'')) files"
  have none: "(\<forall>file \<in> set files. \<not> startsWith (ftype file) (ascii ''image/'')) \<Longrightarrow> ?images = []"
    by (simp add: filter_empty_conv)
  have part1: "map fst (readers (handleFiles files st)) =
     map fst (readers st) @ map dataURL ?images"
    by (cases "?images = []") (simp_all add: handleFiles_def alert_def readers_started Let_def)
  have part2: "?images = [] \<Longrightarrow>
      handleFiles files st = st\<lparr>alerts := alerts st @ [alert_choose_image]\<rparr>"
    by (simp add: handleFiles_def alert_def)
  show ?thesis using part1 part2 none by simp
qed

theorem handleFiles_no_image_witness:
  "\<not> startsWith (ascii ''text/plain'') (ascii ''image/'') \<and>
   handleFiles [\<lparr>ftype = ascii ''text/plain'', dataURL = ascii ''data:text/plain;base64,QQ==''\<rparr>]
      init_state = init_state\<lparr>alerts := [alert_choose_image]\<rparr>"
proof -
  let ?files = "[\<lparr>ftype = ascii ''text/plain'', dataURL = ascii ''data:text/plain;base64,QQ==''\<rparr>]"
  have h: "\<forall>file \<in> set ?files. \<not> startsWith (ftype file) (ascii ''image/'')"
    by (simp add: startsWith_def ascii_def)
  have "alerts init_state = []" by (simp add: init_state_def)
  with handleFiles_no_image [of ?files init_state] h show ?thesis by simp
qed

section \<open>What each handler leaves alone\<close>

lemma identify_resume_frame:
  "currentStream (identify_resume fetched st) = currentStream st"
  "apiClient (identify_resume fetched st) = apiClient st"
  "requests (identify_resume fetched st) = requests st"
  "loaded (identify_resume fetched st) = loaded st"
  by (auto simp: identify_resume_def addMessage_def then_do_def split: sum.splits)

lemma run_listener_frame:
  "currentStream (run_listener l st) = currentStream st"
  "apiClient (run_listener l st) = apiClient st"
  "loaded (run_listener l st) = loaded st"
  by (cases l; auto simp: run_listener_def usePhoto_def useUploadedPhoto_def addMessage_def
      showChatScreen_def closePhotoModal_def setTimeout_def send_request_def Let_def
      split: option.splits)+

lemma foldl_listener_frame:
  "currentStream (foldl (\<lambda>s l. run_listener l s) st ls) = currentStream st"
  "apiClient (foldl (\<lambda>s l. run_listener l s) st ls) = apiClient st"
  "loaded (foldl (\<lambda>s l. run_listener l s) st ls) = loaded st"
  by (induction ls arbitrary: st) (simp_all add: run_listener_frame)

lemma show_preview_frame:
  "currentStream (show_preview d i st) = currentStream st"
  "apiClient (show_preview d i st) = apiClient st"
  "requests (show_preview d i st) = requests st"
  "loaded (show_preview d i st) = loaded st"
  by (auto simp: show_preview_def throw_uncaught_def addEventListener_def Let_def
      split: list.splits option.splits)

lemmas plain_defs = addMessage_def showHomeScreen_def showChatScreen_def closePhotoModal_def
  retakePhoto_def setTimeout_def alert_def send_request_def addEventListener_def
  handleAwaken_def handleCapture_def usePhoto_resume_def useUploadedPhoto_resume_def
  photo_local_reply_def upload_local_reply_def sendMessage_def spirit_response_def
  handleFiles_def reader_onload_def run_callback_def click_use_photo_btn_def







section \<open>The gateway after a failed probe\<close>

lemma initAPI_resume_failed:
  assumes "\<forall>response data. fetched = Inr response \<and> body response = Inr data \<longrightarrow>
             get_prop data (ascii ''status'') \<noteq> Inr (Some (JStr (ascii ''ok'')))"
  shows "initAPI_resume fetched st = st\<lparr>apiClient := None\<rparr>"
proof (cases fetched)
  case (Inl error)
  then show ?thesis
    by (simp add: initAPI_resume_def checkHealth_rejected then_do_def ascii_def)
next
  case (Inr response)
  show ?thesis
  proof (cases "body response")
    case (Inl error)
    with Inr show ?thesis
      by (simp add: initAPI_resume_def checkHealth_undecodable then_do_def ascii_def)
  next
    case (Inr data)
    with \<open>fetched = Inr response\<close> assms
    have "get_prop data (ascii ''status'') \<noteq> Inr (Some (JStr (ascii ''ok'')))" by blast
    with Inr \<open>fetched = Inr response\<close> show ?thesis
      by (cases "get_prop data (ascii ''status'')")
        (simp_all add: initAPI_resume_def checkHealth_decoded then_do_def)
  qed
qed

lemma initAPI_resume_frame:
  "requests (initAPI_resume fetched st) = requests st"
  "loaded (initAPI_resume fetched st) = loaded st"
  "apiClient st = None \<Longrightarrow> apiClient (initAPI_resume fetched st) = None"
  "apiClient (initAPI_resume fetched st) = None \<or>
   apiClient (initAPI_resume fetched st) = apiClient st"
  by (auto simp: initAPI_resume_def then_do_def split: sum.splits)

lemma run_listener_offline:
  "apiClient st = None \<Longrightarrow> requests (run_listener l st) = requests st"
  by (cases l) (simp_all add: run_listener_def usePhoto_def useUploadedPhoto_def addMessage_def
      showChatScreen_def closePhotoModal_def setTimeout_def Let_def)

lemma foldl_listener_offline:
  "apiClient st = None \<Longrightarrow> requests (foldl (\<lambda>s l. run_listener l s) st ls) = requests st"
  by (induction ls arbitrary: st) (simp_all add: run_listener_offline run_listener_frame)

text \<open>Once the page is loaded and \<open>apiClient\<close> is \<open>null\<close>, no event changes that or sends a request.\<close>

lemma step_offline:
  assumes "loaded st" and "apiClient st = None"
  shows "loaded (step e st) \<and> apiClient (step e st) = None \<and> requests (step e st) = requests st"
  using assms
  by (cases e) (auto simp: identify_resume_frame foldl_listener_frame foldl_listener_offline
      show_preview_frame initAPI_resume_frame plain_defs initCamera_resume_def
      beforeunload_def visibilitychange_def Let_def
      split: option.splits list.splits sum.splits identify_caller.splits callback.splits)

lemma run_Nil: "run [] st = st"
  by (simp add: run_def)

lemma run_Cons: "run (e # es) st = run es (step e st)"
  by (simp add: run_def)

lemma run_offline:
  "loaded st \<Longrightarrow> apiClient st = None \<Longrightarrow>
   loaded (run es st) \<and> apiClient (run es st) = None \<and> requests (run es st) = requests st"
proof (induction es arbitrary: st)
  case Nil
  then show ?case by (simp add: run_Nil)
next
  case (Cons e es)
  from step_offline [OF Cons.prems, of e]
  have s: "loaded (step e st)" "apiClient (step e st) = None"
    "requests (step e st) = requests st" by simp_all
  from Cons.IH [OF s(1) s(2)] s(3) show ?case by (simp add: run_Cons)
qed

text \<open>
  While the page is loaded no event sends a health probe (an identify request is a POST),
  and the probe stays in flight until it settles.
\<close>

lemma health_request:
  "checkHealth_request new_APIClient =
     \<lparr>url = ascii ''http://localhost:5000/health'', http_method = GET, payload = None\<rparr>"
  by (simp add: checkHealth_request_def new_APIClient_def API_CONFIG_def ascii_def)

lemma run_listener_probes: "health_probes (run_listener l st) = health_probes st"
  by (cases l) (auto simp: run_listener_def usePhoto_def useUploadedPhoto_def addMessage_def
      showChatScreen_def closePhotoModal_def setTimeout_def send_request_def Let_def
      health_probes_def identifyImage_request_def split: option.splits)

lemma foldl_listener_probes:
  "health_probes (foldl (\<lambda>s l. run_listener l s) st ls) = health_probes st"
  by (induction ls arbitrary: st) (simp_all add: run_listener_probes)

lemma frame_awaiting_health:
  "awaiting_health (identify_resume fetched st) = awaiting_health st"
  "awaiting_health (run_listener l st) = awaiting_health st"
  "awaiting_health (show_preview d i st) = awaiting_health st"
    apply (auto simp: identify_resume_def addMessage_def then_do_def split: sum.splits)[1]
   apply (cases l; simp add: run_listener_def usePhoto_def useUploadedPhoto_def addMessage_def
      showChatScreen_def closePhotoModal_def setTimeout_def send_request_def Let_def
      split: option.splits)
  apply (auto simp: show_preview_def throw_uncaught_def addEventListener_def Let_def
      split: list.splits option.splits)
  done

lemma foldl_listener_awaiting_health:
  "awaiting_health (foldl (\<lambda>s l. run_listener l s) st ls) = awaiting_health st"
  by (induction ls arbitrary: st) (simp_all add: frame_awaiting_health)

lemma step_loaded:
  assumes "loaded st"
  shows "loaded (step e st) \<and>
         health_probes (step e st) = health_probes st \<and>
         ((\<forall>f. e \<noteq> HealthSettled f) \<longrightarrow> awaiting_health (step e st) = awaiting_health st)"
proof -
  have a: "loaded (step e st)"
    using assms
    by (cases e) (auto simp: identify_resume_frame foldl_listener_frame
        show_preview_frame initAPI_resume_frame plain_defs initCamera_resume_def
        beforeunload_def visibilitychange_def Let_def
        split: option.splits list.splits sum.splits identify_caller.splits callback.splits)
  have c: "health_probes (step e st) = health_probes st"
  proof (cases e)
    case ClickUsePhoto
    then show ?thesis
      by (simp add: click_use_photo_btn_def foldl_listener_probes split: option.splits)
  qed (use assms in \<open>auto simp: identify_resume_frame
        show_preview_frame initAPI_resume_frame plain_defs initCamera_resume_def
        beforeunload_def visibilitychange_def Let_def health_probes_def
        split: option.splits list.splits sum.splits identify_caller.splits callback.splits\<close>)
  have d: "awaiting_health (step e st) = awaiting_health st" if "\<forall>f. e \<noteq> HealthSettled f"
    using assms that
    by (cases e) (auto simp: frame_awaiting_health foldl_listener_awaiting_health
        plain_defs initCamera_resume_def
        beforeunload_def visibilitychange_def Let_def
        split: option.splits list.splits sum.splits identify_caller.splits callback.splits)
  from a c d show ?thesis by auto
qed

lemma run_probes:
  "loaded st \<Longrightarrow> loaded (run es st) \<and> health_probes (run es st) = health_probes st"
proof (induction es arbitrary: st)
  case Nil
  then show ?case by (simp add: run_Nil)
next
  case (Cons e es)
  from step_loaded [OF Cons.prems, of e]
  have s: "loaded (step e st)" "health_probes (step e st) = health_probes st" by simp_all
  from Cons.IH [OF s(1)] s(2) show ?case by (simp add: run_Cons)
qed

lemma run_in_flight:
  "loaded st \<Longrightarrow> \<forall>e \<in> set es. \<forall>f. e \<noteq> HealthSettled f \<Longrightarrow>
   loaded (run es st) \<and> awaiting_health (run es st) = awaiting_health st"
proof (induction es arbitrary: st)
  case Nil
  then show ?case by (simp add: run_Nil)
next
  case (Cons e es)
  from Cons.prems(2) have e: "\<forall>f. e \<noteq> HealthSettled f"
    and es: "\<forall>e \<in> set es. \<forall>f. e \<noteq> HealthSettled f" by simp_all
  from step_loaded [OF Cons.prems(1), of e] e
  have s: "loaded (step e st)" "awaiting_health (step e st) = awaiting_health st" by simp_all
  from Cons.IH [OF s(1) es] s(2) show ?case by (simp add: run_Cons)
qed

lemma on_load_facts:
  "loaded (on_load True cam st)"
  "apiClient (on_load True cam st) = Some new_APIClient"
  "awaiting_health (on_load True cam st)"
  "requests (on_load True cam st) = requests st @ [checkHealth_request new_APIClient]"
  by (auto simp: on_load_def initAPI_def construct_APIClient_def initCamera_def
      initEventListeners_def addEventListener_def send_request_def Let_def split: list.splits)

lemma on_load_without_class:
  "loaded (on_load False cam st)"
  "apiClient (on_load False cam st) = None"
  "requests (on_load False cam st) = requests st"
  by (auto simp: on_load_def initAPI_def construct_APIClient_def initCamera_def
      initEventListeners_def addEventListener_def Let_def split: list.splits)

lemma local_path:
  assumes "apiClient st = None"
  shows "usePhoto st =
           setTimeout PhotoLocalReply 1000
             (showChatScreen (closePhotoModal
                (addMessage (ascii ''user'') txt_photo_taken (Some (capturedPhoto_src st)) st)))"
    and "useUploadedPhoto d st =
           setTimeout UploadLocalReply 1000
             (showChatScreen (addMessage (ascii ''user'') txt_photo_uploaded (Some d)
                (closePhotoModal st)))"
  using assms
  by (simp_all add: usePhoto_def useUploadedPhoto_def Let_def addMessage_def
      showChatScreen_def closePhotoModal_def)

text \<open>
  C3, as the code has it. Let the page load in a state where nothing has run yet. When
  \<open>new APIClient()\<close> succeeds, \<open>initAPI\<close> sends one request, a GET of
  \<open>http://localhost:5000/health\<close>, and whatever events follow and however the probe
  settles, that is the only health probe ever sent. When \<open>new APIClient()\<close> throws, no
  request is sent, \<open>apiClient\<close> is \<open>null\<close> at once and stays so. When the probe was sent,
  any events happen while it is in flight, and it fails (\<open>fetch\<close> is rejected, or the body
  cannot be decoded, or the decoded body has no \<open>status\<close> equal to \<open>ok\<close>), then
  \<open>apiClient\<close> is \<open>null\<close>, and after any further events it is still \<open>null\<close> and no
  request has been sent since the probe settled. In such a state \<open>usePhoto\<close> and
  \<open>useUploadedPhoto\<close> take their local branch (a timer, no request), and \<open>sendMessage\<close>
  sends no request.
\<close>

theorem failed_probe_disables_gateway:
  assumes fresh: "\<not> loaded st0" "requests st0 = []"
    and in_flight: "\<forall>e \<in> set es_pending. \<forall>f. e \<noteq> HealthSettled f"
    and failed: "\<forall>response data. fetched = Inr response \<and> body response = Inr data \<longrightarrow>
                   get_prop data (ascii ''status'') \<noteq> Inr (Some (JStr (ascii ''ok'')))"
    and st1: "st1 = run es_pending (step (DOMContentLoaded True cam) st0)"
    and st2: "st2 = step (HealthSettled fetched) st1"
    and st3: "st3 = run es_after st2"
  shows "requests (step (DOMContentLoaded True cam) st0) =
           [\<lparr>url = ascii ''http://localhost:5000/health'', http_method = GET, payload = None\<rparr>] \<and>
         health_probes (run es (step (DOMContentLoaded True cam) st0)) = 1 \<and>
         requests (run es (step (DOMContentLoaded False cam) st0)) = [] \<and>
         apiClient (run es (step (DOMContentLoaded False cam) st0)) = None \<and>
         apiClient st2 = None \<and> apiClient st3 = None \<and>
         requests st3 = requests st2 \<and> health_probes st3 = 1 \<and>
         usePhoto st3 =
           setTimeout PhotoLocalReply 1000
             (showChatScreen (closePhotoModal
                (addMessage (ascii ''user'') txt_photo_taken (Some (capturedPhoto_src st3)) st3))) \<and>
         requests (usePhoto st3) = requests st3 \<and>
         useUploadedPhoto d st3 =
           setTimeout UploadLocalReply 1000
             (showChatScreen (addMessage (ascii ''user'') txt_photo_uploaded (Some d)
                (closePhotoModal st3))) \<and>
         requests (useUploadedPhoto d st3) = requests st3 \<and>
         requests (sendMessage r st3) = requests st3"
proof -
  let ?l = "step (DOMContentLoaded True cam) st0"
  let ?n = "step (DOMContentLoaded False cam) st0"
  have l: "loaded ?l" "apiClient ?l = Some new_APIClient" "awaiting_health ?l"
    "requests ?l = [checkHealth_request new_APIClient]"
    using fresh by (simp_all add: on_load_facts)
  then have lp: "health_probes ?l = 1"
    by (simp add: health_probes_def health_request)
  have sent: "requests ?l =
      [\<lparr>url = ascii ''http://localhost:5000/health'', http_method = GET, payload = None\<rparr>]"
    using l(4) by (simp only: health_request)
  have once: "health_probes (run es ?l) = 1"
    using run_probes [OF l(1), of es] lp by simp
  have n: "loaded ?n" "apiClient ?n = None" "requests ?n = []"
    using fresh by (simp_all add: on_load_without_class)
  from run_offline [OF n(1,2), of es] n(3)
  have never: "requests (run es ?n) = []" "apiClient (run es ?n) = None" by simp_all
  from run_in_flight [OF l(1) in_flight] l(3)
  have s1: "loaded st1" "awaiting_health st1" by (simp_all add: st1)
  have p1: "health_probes st1 = 1"
    using run_probes [OF l(1), of es_pending] lp by (simp add: st1)
  have s2_eq: "st2 = (st1\<lparr>awaiting_health := False\<rparr>)\<lparr>apiClient := None\<rparr>"
    using s1(2) by (simp add: st2 initAPI_resume_failed [OF failed])
  then have s2: "loaded st2" "apiClient st2 = None" "health_probes st2 = 1"
    using s1 p1 by (simp_all add: health_probes_def)
  from run_offline [OF s2(1,2), of es_after]
  have s3: "loaded st3" "apiClient st3 = None" "requests st3 = requests st2"
    by (simp_all add: st3)
  then have p3: "health_probes st3 = 1" using s2(3) by (simp add: health_probes_def)
  have u: "requests (usePhoto st3) = requests st3"
    "requests (useUploadedPhoto d st3) = requests st3"
    using run_listener_offline [OF s3(2), of Listener_usePhoto]
      run_listener_offline [OF s3(2), of "Listener_useUploadedPhoto d"]
    by (simp_all add: run_listener_def)
  have m: "requests (sendMessage r st3) = requests st3"
    by (simp add: sendMessage_def addMessage_def setTimeout_def Let_def)
  from sent once never s2(2) s3(2,3) p3 u m local_path [OF s3(2)] show ?thesis by simp
qed

theorem failed_probe_disables_gateway_witness:
  "\<not> loaded init_state \<and> requests init_state = [] \<and>
   requests (step (DOMContentLoaded True True) init_state) =
     [\<lparr>url = ascii ''http://localhost:5000/health'', http_method = GET, payload = None\<rparr>] \<and>
   health_probes (run [HealthSettled health_response_ok, ClickUsePhoto]
                    (step (DOMContentLoaded True True) init_state)) = 1 \<and>
   apiClient (step (HealthSettled health_response_down)
                (run [ClickAwaken] (step (DOMContentLoaded True True) init_state))) = None \<and>
   apiClient (run [ClickUsePhoto, ClickSend 0]
                (step (HealthSettled health_response_down)
                   (run [ClickAwaken] (step (DOMContentLoaded True True) init_state)))) = None \<and>
   health_probes (run [ClickUsePhoto, ClickSend 0]
                (step (HealthSettled health_response_down)
                   (run [ClickAwaken] (step (DOMContentLoaded True True) init_state)))) = 1"
proof -
  have fresh: "\<not> loaded init_state" "requests init_state = []"
    by (simp_all add: init_state_def)
  have in_flight: "\<forall>e \<in> set [ClickAwaken]. \<forall>f. e \<noteq> HealthSettled f" by simp
  have failed: "\<forall>response data. health_response_down = Inr response \<and> body response = Inr data \<longrightarrow>
                   get_prop data (ascii ''status'') \<noteq> Inr (Some (JStr (ascii ''ok'')))"
    by (auto simp: health_response_down_def ascii_def)
  from failed_probe_disables_gateway
      [where cam = True and es_after = "[ClickUsePhoto, ClickSend 0]"
         and es = "[HealthSettled health_response_ok, ClickUsePhoto]",
       OF fresh in_flight failed refl refl refl]
    fresh
  show ?thesis by simp
qed

text \<open>
  C3 as stated fails on a page where the class \<open>APIClient\<close> is not in scope:
  initialization sends no health probe at all, and none is sent later.
\<close>

theorem no_probe_without_class_counterexample:
  "requests (step (DOMContentLoaded False True) init_state) = [] \<and>
   apiClient (step (DOMContentLoaded False True) init_state) = None \<and>
   health_probes (run [ClickAwaken, ClickUsePhoto, ClickSend 0]
                    (step (DOMContentLoaded False True) init_state)) = 0"
proof -
  let ?n = "step (DOMContentLoaded False True) init_state"
  have fresh: "\<not> loaded init_state" "requests init_state = []"
    by (simp_all add: init_state_def)
  then have n: "loaded ?n" "apiClient ?n = None" "requests ?n = []"
    by (simp_all add: on_load_without_class)
  from run_offline [OF n(1,2), of "[ClickAwaken, ClickUsePhoto, ClickSend 0]"] n(3)
  have "requests (run [ClickAwaken, ClickUsePhoto, ClickSend 0] ?n) = []" by simp
  then have "health_probes (run [ClickAwaken, ClickUsePhoto, ClickSend 0] ?n) = 0"
    by (simp add: health_probes_def)
  with n show ?thesis by simp
qed

section \<open>The chat and the photo flows\<close>

lemma generateSpiritResponse_some:
  assumes "0 \<le> r" and "r \<le> 1 - 1 / 2 ^ 53"
  shows "\<exists>reply. generateSpiritResponse userMessage r = Some reply"
proof -
  have "\<exists>x. pick r xs = Some x" if "xs \<noteq> []" for xs :: "jsstring list"
    using pick_member [OF assms that] by blast
  then show ?thesis by (simp add: generateSpiritResponse_eq reply_sets_nonempty)
qed

text \<open>
  C1, as the code has it. For every call of \<open>sendMessage\<close> with a text that is not empty
  after trimming, whether \<open>apiClient\<close> is \<open>null\<close> or not: the user message with the trimmed
  text is appended, the input is cleared, one timer is set with a delay of 500 ms plus up
  to 1000 ms, and no request is sent. The callback of that timer appends one spirit
  message, whose text is the reply of \<open>generateSpiritResponse\<close> to the trimmed text, and
  sends no request either. The \<open>chat\<close> method of the client is not called.
\<close>

theorem sendMessage_replies_locally:
  assumes "trim (chatInput_value st) \<noteq> []"
  shows "sendMessage r st =
           st\<lparr>chatMessages := chatMessages st @
                 [\<lparr>origin = User, text_content = trim (chatInput_value st), image_src = None\<rparr>],
              chatInput_value := [],
              timers := timers st @
                 [\<lparr>delay = 500 + r * 1000,
                   callback = SpiritResponse (trim (chatInput_value st))\<rparr>]\<rparr> \<and>
         requests (sendMessage r st) = requests st \<and>
         awaiting_identify (sendMessage r st) = awaiting_identify st \<and>
         run_callback (SpiritResponse m) r' st' =
           st'\<lparr>chatMessages := chatMessages st' @
                 [\<lparr>origin = Spirit, text_content = text_or_empty (generateSpiritResponse m r'),
                   image_src = None\<rparr>]\<rparr> \<and>
         (0 \<le> r' \<and> r' \<le> 1 - 1 / 2 ^ 53 \<longrightarrow>
            (\<exists>reply. generateSpiritResponse m r' = Some reply))"
proof -
  have user: "ascii ''spirit'' \<noteq> ascii ''user''"
    by (simp add: ascii_def)
  have a: "sendMessage r st =
           st\<lparr>chatMessages := chatMessages st @
                 [\<lparr>origin = User, text_content = trim (chatInput_value st), image_src = None\<rparr>],
              chatInput_value := [],
              timers := timers st @
                 [\<lparr>delay = 500 + r * 1000,
                   callback = SpiritResponse (trim (chatInput_value st))\<rparr>]\<rparr>"
    using assms by (simp add: sendMessage_def addMessage_def setTimeout_def Let_def)
  have b: "run_callback (SpiritResponse m) r' st' =
           st'\<lparr>chatMessages := chatMessages st' @
                 [\<lparr>origin = Spirit, text_content = text_or_empty (generateSpiritResponse m r'),
                   image_src = None\<rparr>]\<rparr>"
    by (simp add: run_callback_def spirit_response_def addMessage_def user)
  show ?thesis
    unfolding a b using generateSpiritResponse_some [of r' m] by simp
qed

theorem sendMessage_replies_locally_witness:
  "trim (chatInput_value (init_state\<lparr>apiClient := Some new_APIClient, chatInput_value := kw_nihao\<rparr>))
     \<noteq> [] \<and>
   requests (sendMessage 0 (init_state\<lparr>apiClient := Some new_APIClient, chatInput_value := kw_nihao\<rparr>))
     = [] \<and>
   chatMessages (sendMessage 0 (init_state\<lparr>apiClient := Some new_APIClient, chatInput_value := kw_nihao\<rparr>))
     = [\<lparr>origin = User, text_content = kw_nihao, image_src = None\<rparr>]"
proof -
  let ?st = "init_state\<lparr>apiClient := Some new_APIClient, chatInput_value := kw_nihao\<rparr>"
  have t: "trim (chatInput_value ?st) = kw_nihao"
    by (simp add: trim_def kw_nihao_def is_white_def)
  then have h: "trim (chatInput_value ?st) \<noteq> []" by (simp add: kw_nihao_def)
  have e: "requests ?st = []" "chatMessages ?st = []" by (simp_all add: init_state_def)
  from sendMessage_replies_locally [OF h, of 0] t h e show ?thesis by simp
qed

text \<open>
  C1 as stated fails in the session where the page loads, the probe answers \<open>ok\<close>, the
  user types the hello key and clicks send, and the timer fires: \<open>apiClient\<close> is set, the
  only request ever sent is the probe, and the reply is the first greeting of the local
  responder.
\<close>

theorem sendMessage_gateway_counterexample:
  "apiClient (run [DOMContentLoaded True True, HealthSettled health_response_ok, InputTyped kw_nihao,
                   ClickSend 0, TimerFired 0 0] init_state) = Some new_APIClient \<and>
   requests (run [DOMContentLoaded True True, HealthSettled health_response_ok, InputTyped kw_nihao,
                  ClickSend 0, TimerFired 0 0] init_state) = [checkHealth_request new_APIClient] \<and>
   chatMessages (run [DOMContentLoaded True True, HealthSettled health_response_ok,
                      InputTyped kw_nihao, ClickSend 0, TimerFired 0 0] init_state)
     = [\<lparr>origin = User, text_content = kw_nihao, image_src = None\<rparr>,
        \<lparr>origin = Spirit, text_content = greeting_replies ! 0, image_src = None\<rparr>]"
proof -
  define s1 where "s1 = step (DOMContentLoaded True True) init_state"
  define s2 where "s2 = step (HealthSettled health_response_ok) s1"
  define s3 where "s3 = step (InputTyped kw_nihao) s2"
  define s4 where "s4 = step (ClickSend 0) s3"
  define s5 where "s5 = step (TimerFired 0 0) s4"
  have final: "run [DOMContentLoaded True True, HealthSettled health_response_ok, InputTyped kw_nihao,
                    ClickSend 0, TimerFired 0 0] init_state = s5"
    by (simp only: run_def foldl.simps s1_def s2_def s3_def s4_def s5_def)
  have user: "ascii ''spirit'' \<noteq> ascii ''user''" by (simp add: ascii_def)
  have s1: "loaded s1" "apiClient s1 = Some new_APIClient" "awaiting_health s1"
    "requests s1 = [checkHealth_request new_APIClient]" "chatMessages s1 = []" "timers s1 = []"
    by (simp_all add: s1_def init_state_def on_load_def initAPI_def construct_APIClient_def initCamera_def
        initEventListeners_def addEventListener_def send_request_def)
  have ok: "initAPI_resume health_response_ok st = st" for st
    by (simp add: initAPI_resume_def health_response_ok_def checkHealth_decoded then_do_def
        ascii_def)
  have s2: "s2 = s1\<lparr>awaiting_health := False\<rparr>"
    using s1(3) by (simp add: s2_def ok)
  have s3: "loaded s3" "apiClient s3 = Some new_APIClient"
    "requests s3 = [checkHealth_request new_APIClient]" "chatMessages s3 = []" "timers s3 = []"
    "chatInput_value s3 = kw_nihao"
    using s1 by (simp_all add: s3_def s2)
  have t: "trim kw_nihao = kw_nihao" by (simp add: trim_def kw_nihao_def is_white_def)
  have ne: "kw_nihao \<noteq> []" by (simp add: kw_nihao_def)
  have s4: "apiClient s4 = Some new_APIClient"
    "requests s4 = [checkHealth_request new_APIClient]"
    "chatMessages s4 = [\<lparr>origin = User, text_content = kw_nihao, image_src = None\<rparr>]"
    "timers s4 = [\<lparr>delay = 500, callback = SpiritResponse kw_nihao\<rparr>]"
    using s3 by (simp_all add: s4_def sendMessage_def t ne addMessage_def setTimeout_def Let_def)
  have g: "generateSpiritResponse kw_nihao 0 = Some (greeting_replies ! 0)"
    by (simp add: generateSpiritResponse_eq pick_zero kw_nihao_def startsWith_def
        greeting_replies_def)
  have s5: "apiClient s5 = Some new_APIClient"
    "requests s5 = [checkHealth_request new_APIClient]"
    "chatMessages s5 = [\<lparr>origin = User, text_content = kw_nihao, image_src = None\<rparr>,
        \<lparr>origin = Spirit, text_content = greeting_replies ! 0, image_src = None\<rparr>]"
    using s4 by (simp_all add: s5_def run_callback_def spirit_response_def g text_or_empty_def
        addMessage_def remove_nth_def user)
  show ?thesis unfolding final using s5 by simp
qed

lemma spirit_not_user: "ascii ''spirit'' \<noteq> ascii ''user''"
  by (simp add: ascii_def)

lemma usePhoto_offline:
  assumes "apiClient st = None"
  shows "usePhoto st =
           st\<lparr>chatMessages := chatMessages st @
                 [\<lparr>origin = User, text_content = txt_photo_taken,
                   image_src = (if capturedPhoto_src st \<noteq> [] then Some (capturedPhoto_src st)
                                else None)\<rparr>],
              modal_active := False, home_active := False, chat_active := True,
              timers := timers st @ [\<lparr>delay = 1000, callback = PhotoLocalReply\<rparr>]\<rparr>"
  using assms
  by (simp add: usePhoto_def addMessage_def closePhotoModal_def showChatScreen_def
      setTimeout_def Let_def)

lemma usePhoto_online:
  assumes "apiClient st = Some client"
  shows "usePhoto st =
           st\<lparr>chatMessages := chatMessages st @
                 [\<lparr>origin = User, text_content = txt_photo_taken,
                   image_src = (if capturedPhoto_src st \<noteq> [] then Some (capturedPhoto_src st)
                                else None)\<rparr>,
                  \<lparr>origin = Spirit, text_content = txt_let_me_look, image_src = None\<rparr>],
              modal_active := False, home_active := False, chat_active := True,
              requests := requests st @ [identifyImage_request client (capturedPhoto_src st) []],
              awaiting_identify := awaiting_identify st @ [From_usePhoto]\<rparr>"
  using assms
  by (simp add: usePhoto_def addMessage_def closePhotoModal_def showChatScreen_def
      send_request_def Let_def spirit_not_user)

lemma useUploadedPhoto_offline:
  assumes "apiClient st = None"
  shows "useUploadedPhoto d st =
           st\<lparr>modal_active := False,
              chatMessages := chatMessages st @
                 [\<lparr>origin = User, text_content = txt_photo_uploaded,
                   image_src = (if d \<noteq> [] then Some d else None)\<rparr>],
              home_active := False, chat_active := True,
              timers := timers st @ [\<lparr>delay = 1000, callback = UploadLocalReply\<rparr>]\<rparr>"
  using assms
  by (simp add: useUploadedPhoto_def addMessage_def closePhotoModal_def showChatScreen_def
      setTimeout_def Let_def)

lemma useUploadedPhoto_online:
  assumes "apiClient st = Some client"
  shows "useUploadedPhoto d st =
           st\<lparr>modal_active := False,
              chatMessages := chatMessages st @
                 [\<lparr>origin = User, text_content = txt_photo_uploaded,
                   image_src = (if d \<noteq> [] then Some d else None)\<rparr>,
                  \<lparr>origin = Spirit, text_content = txt_let_me_look_upload, image_src = None\<rparr>],
              home_active := False, chat_active := True,
              requests := requests st @ [identifyImage_request client d []],
              awaiting_identify := awaiting_identify st @ [From_useUploadedPhoto]\<rparr>"
  using assms
  by (simp add: useUploadedPhoto_def addMessage_def closePhotoModal_def showChatScreen_def
      send_request_def Let_def spirit_not_user)

text \<open>Whatever the request gave, the rest of the function appends one spirit message.\<close>

lemma identify_resume_one_message:
  "\<exists>reply. identify_resume fetched st =
     st\<lparr>chatMessages := chatMessages st @
           [\<lparr>origin = Spirit, text_content = reply, image_src = None\<rparr>]\<rparr>"
proof (cases "identifyImage fetched")
  case (Inl error)
  then show ?thesis
    by (intro exI [of _ txt_identify_error])
      (simp add: identify_resume_def then_do_def addMessage_def spirit_not_user)
next
  case result: (Inr result)
  show ?thesis
  proof (cases "get_prop result (ascii ''success'')")
    case (Inl error)
    with result show ?thesis
      by (intro exI [of _ txt_identify_error])
        (simp add: identify_resume_def then_do_def addMessage_def spirit_not_user)
  next
    case success: (Inr success)
    show ?thesis
    proof (cases "truthy success")
      case False
      with result success show ?thesis
        by (intro exI [of _ txt_not_identified])
          (simp add: identify_resume_def then_do_def addMessage_def spirit_not_user)
    next
      case True
      show ?thesis
      proof (cases "responseText result")
        case (Inl error)
        with result success True show ?thesis
          by (intro exI [of _ txt_identify_error])
            (simp add: identify_resume_def then_do_def addMessage_def spirit_not_user)
      next
        case (Inr t)
        with result success True show ?thesis
          by (intro exI [of _ t])
            (simp add: identify_resume_def then_do_def addMessage_def spirit_not_user)
      qed
    qed
  qed
qed

lemma identify_resume_throws:
  "identifyImage fetched = Inl error \<Longrightarrow>
   identify_resume fetched st =
     st\<lparr>chatMessages := chatMessages st @
           [\<lparr>origin = Spirit, text_content = txt_identify_error, image_src = None\<rparr>]\<rparr>"
  by (simp add: identify_resume_def then_do_def addMessage_def spirit_not_user)

lemma identify_resume_null:
  assumes "ok response" and "body response = Inr JNull"
  shows "identify_resume (Inr response) st =
     st\<lparr>chatMessages := chatMessages st @
           [\<lparr>origin = Spirit, text_content = txt_identify_error, image_src = None\<rparr>]\<rparr>"
  using assms
  by (simp add: identify_resume_def identifyImage_ok then_do_def addMessage_def spirit_not_user)

lemma identify_resume_no_success:
  assumes "ok response" and "body response = Inr result"
    and "get_prop result (ascii ''success'') = Inr success" and "\<not> truthy success"
  shows "identify_resume (Inr response) st =
     st\<lparr>chatMessages := chatMessages st @
           [\<lparr>origin = Spirit, text_content = txt_not_identified, image_src = None\<rparr>]\<rparr>"
  using assms
  by (simp add: identify_resume_def identifyImage_ok then_do_def addMessage_def spirit_not_user)

lemma identify_resume_success:
  assumes "ok response" and "body response = Inr result"
    and "get_prop result (ascii ''success'') = Inr success" and "truthy success"
  shows "responseText result = Inr t \<Longrightarrow>
         identify_resume (Inr response) st =
           st\<lparr>chatMessages := chatMessages st @
                 [\<lparr>origin = Spirit, text_content = t, image_src = None\<rparr>]\<rparr>"
    and "responseText result = Inl error \<Longrightarrow>
         identify_resume (Inr response) st =
           st\<lparr>chatMessages := chatMessages st @
                 [\<lparr>origin = Spirit, text_content = txt_identify_error, image_src = None\<rparr>]\<rparr>"
  using assms
  by (simp_all add: identify_resume_def identifyImage_ok then_do_def addMessage_def
      spirit_not_user)

lemma join_elems_strings: "join_elems sep (map JStr labels) = Inr (join_strings sep labels)"
  by (induction sep labels rule: join_strings.induct) simp_all

lemma responseText_labels:
  assumes "get_prop result (ascii ''description'') = Inr (Some (JStr description))"
    and "get_prop result (ascii ''objects'') = Inr (Some (JArr (map JStr labels)))"
  shows "responseText result =
           Inr (txt_recognised_head @ description @ txt_recognised_mid @
                join_strings txt_join_sep labels)"
  using assms
  by (simp add: responseText_def then_do_def to_string_opt_def call_join_def join_elems_strings)

lemma local_reply_sets_nonempty: "photo_local_replies \<noteq> []" "upload_local_replies \<noteq> []"
  by (simp_all add: photo_local_replies_def upload_local_replies_def)

lemma local_reply_one_message:
  assumes "0 \<le> r" and "r \<le> 1 - 1 / 2 ^ 53"
  shows "\<exists>reply \<in> set photo_local_replies. run_callback PhotoLocalReply r st =
           st\<lparr>chatMessages := chatMessages st @
                 [\<lparr>origin = Spirit, text_content = reply, image_src = None\<rparr>]\<rparr>"
    and "\<exists>reply \<in> set upload_local_replies. run_callback UploadLocalReply r st =
           st\<lparr>chatMessages := chatMessages st @
                 [\<lparr>origin = Spirit, text_content = reply, image_src = None\<rparr>]\<rparr>"
proof -
  from pick_member [OF assms local_reply_sets_nonempty(1)]
  obtain p where p: "pick r photo_local_replies = Some p" "p \<in> set photo_local_replies"
    by blast
  from pick_member [OF assms local_reply_sets_nonempty(2)]
  obtain u where u: "pick r upload_local_replies = Some u" "u \<in> set upload_local_replies"
    by blast
  have "run_callback PhotoLocalReply r st =
           st\<lparr>chatMessages := chatMessages st @
                 [\<lparr>origin = Spirit, text_content = p, image_src = None\<rparr>]\<rparr>"
    by (simp add: run_callback_def photo_local_reply_def p(1) text_or_empty_def addMessage_def
        spirit_not_user)
  with p(2) show "\<exists>reply \<in> set photo_local_replies. run_callback PhotoLocalReply r st =
           st\<lparr>chatMessages := chatMessages st @
                 [\<lparr>origin = Spirit, text_content = reply, image_src = None\<rparr>]\<rparr>"
    by blast
  have "run_callback UploadLocalReply r st =
           st\<lparr>chatMessages := chatMessages st @
                 [\<lparr>origin = Spirit, text_content = u, image_src = None\<rparr>]\<rparr>"
    by (simp add: run_callback_def upload_local_reply_def u(1) text_or_empty_def addMessage_def
        spirit_not_user)
  with u(2) show "\<exists>reply \<in> set upload_local_replies. run_callback UploadLocalReply r st =
           st\<lparr>chatMessages := chatMessages st @
                 [\<lparr>origin = Spirit, text_content = reply, image_src = None\<rparr>]\<rparr>"
    by blast
qed

text \<open>
  C2, as the code has it. \<open>usePhoto\<close> and \<open>useUploadedPhoto\<close> append one user message
  with the image. When \<open>apiClient\<close> is \<open>null\<close> they set one timer of 1000 ms and send no
  request, and the callback of the timer appends one spirit message, taken from the local
  replies of the function. When \<open>apiClient\<close> is set they append a spirit message at once
  (the progress message) and send one identify request, a POST of the image to
  \<open>/api/identify\<close> of the configured server; when the request has settled, the
  rest of the function, which is the same for both, appends exactly one more spirit
  message. Its text is the fixed error text whenever the identify call throws (a rejected
  \<open>fetch\<close>, a body that cannot be decoded, a status that is not a success), when the body
  is \<open>null\<close>, and when the description or the objects cannot be printed; the fixed
  could-not-identify text when \<open>success\<close> is falsy; and otherwise the text made of the
  description and the joined objects. So the transcript gains one user message and one
  spirit message without the gateway, and one user message and two spirit messages with
  it.
\<close>

theorem photo_to_chat_messages:
  "(apiClient st = None \<longrightarrow>
      chatMessages (usePhoto st) = chatMessages st @
        [\<lparr>origin = User, text_content = txt_photo_taken,
          image_src = (if capturedPhoto_src st \<noteq> [] then Some (capturedPhoto_src st) else None)\<rparr>] \<and>
      timers (usePhoto st) = timers st @ [\<lparr>delay = 1000, callback = PhotoLocalReply\<rparr>] \<and>
      requests (usePhoto st) = requests st \<and>
      awaiting_identify (usePhoto st) = awaiting_identify st \<and>
      chatMessages (useUploadedPhoto d st) = chatMessages st @
        [\<lparr>origin = User, text_content = txt_photo_uploaded,
          image_src = (if d \<noteq> [] then Some d else None)\<rparr>] \<and>
      timers (useUploadedPhoto d st) = timers st @ [\<lparr>delay = 1000, callback = UploadLocalReply\<rparr>] \<and>
      requests (useUploadedPhoto d st) = requests st \<and>
      awaiting_identify (useUploadedPhoto d st) = awaiting_identify st) \<and>
   (\<forall>client. apiClient st = Some client \<longrightarrow>
      chatMessages (usePhoto st) = chatMessages st @
        [\<lparr>origin = User, text_content = txt_photo_taken,
          image_src = (if capturedPhoto_src st \<noteq> [] then Some (capturedPhoto_src st) else None)\<rparr>,
         \<lparr>origin = Spirit, text_content = txt_let_me_look, image_src = None\<rparr>] \<and>
      timers (usePhoto st) = timers st \<and>
      requests (usePhoto st) =
        requests st @ [identifyImage_request client (capturedPhoto_src st) []] \<and>
      awaiting_identify (usePhoto st) = awaiting_identify st @ [From_usePhoto] \<and>
      chatMessages (useUploadedPhoto d st) = chatMessages st @
        [\<lparr>origin = User, text_content = txt_photo_uploaded,
          image_src = (if d \<noteq> [] then Some d else None)\<rparr>,
         \<lparr>origin = Spirit, text_content = txt_let_me_look_upload, image_src = None\<rparr>] \<and>
      timers (useUploadedPhoto d st) = timers st \<and>
      requests (useUploadedPhoto d st) = requests st @ [identifyImage_request client d []] \<and>
      awaiting_identify (useUploadedPhoto d st) =
        awaiting_identify st @ [From_useUploadedPhoto]) \<and>
   (useUploadedPhoto_resume fetched st' = usePhoto_resume fetched st') \<and>
   (\<exists>reply. usePhoto_resume fetched st' =
      st'\<lparr>chatMessages := chatMessages st' @
            [\<lparr>origin = Spirit, text_content = reply, image_src = None\<rparr>]\<rparr>) \<and>
   ((\<exists>error. identifyImage fetched = Inl error) \<longrightarrow>
      usePhoto_resume fetched st' =
      st'\<lparr>chatMessages := chatMessages st' @
            [\<lparr>origin = Spirit, text_content = txt_identify_error, image_src = None\<rparr>]\<rparr>) \<and>
   (\<forall>rejection. fetched = Inl rejection \<longrightarrow>
      usePhoto_resume fetched st' =
      st'\<lparr>chatMessages := chatMessages st' @
            [\<lparr>origin = Spirit, text_content = txt_identify_error, image_src = None\<rparr>]\<rparr>) \<and>
   (\<forall>response undecodable. fetched = Inr response \<and> body response = Inl undecodable \<longrightarrow>
      usePhoto_resume fetched st' =
      st'\<lparr>chatMessages := chatMessages st' @
            [\<lparr>origin = Spirit, text_content = txt_identify_error, image_src = None\<rparr>]\<rparr>) \<and>
   (\<forall>response. fetched = Inr response \<and> \<not> ok response \<longrightarrow>
      usePhoto_resume fetched st' =
      st'\<lparr>chatMessages := chatMessages st' @
            [\<lparr>origin = Spirit, text_content = txt_identify_error, image_src = None\<rparr>]\<rparr>) \<and>
   (\<forall>response. fetched = Inr response \<and> ok response \<and> body response = Inr JNull \<longrightarrow>
      usePhoto_resume fetched st' =
      st'\<lparr>chatMessages := chatMessages st' @
            [\<lparr>origin = Spirit, text_content = txt_identify_error, image_src = None\<rparr>]\<rparr>) \<and>
   (\<forall>response result success.
      fetched = Inr response \<and> ok response \<and> body response = Inr result \<and>
      get_prop result (ascii ''success'') = Inr success \<and> \<not> truthy success \<longrightarrow>
      usePhoto_resume fetched st' =
      st'\<lparr>chatMessages := chatMessages st' @
            [\<lparr>origin = Spirit, text_content = txt_not_identified, image_src = None\<rparr>]\<rparr>) \<and>
   (\<forall>response result success t.
      fetched = Inr response \<and> ok response \<and> body response = Inr result \<and>
      get_prop result (ascii ''success'') = Inr success \<and> truthy success \<and>
      responseText result = Inr t \<longrightarrow>
      usePhoto_resume fetched st' =
      st'\<lparr>chatMessages := chatMessages st' @
            [\<lparr>origin = Spirit, text_content = t, image_src = None\<rparr>]\<rparr>) \<and>
   (\<forall>response result success error.
      fetched = Inr response \<and> ok response \<and> body response = Inr result \<and>
      get_prop result (ascii ''success'') = Inr success \<and> truthy success \<and>
      responseText result = Inl error \<longrightarrow>
      usePhoto_resume fetched st' =
      st'\<lparr>chatMessages := chatMessages st' @
            [\<lparr>origin = Spirit, text_content = txt_identify_error, image_src = None\<rparr>]\<rparr>) \<and>
   (\<forall>result description labels.
      get_prop result (ascii ''description'') = Inr (Some (JStr description)) \<and>
      get_prop result (ascii ''objects'') = Inr (Some (JArr (map JStr labels))) \<longrightarrow>
      responseText result =
        Inr (txt_recognised_head @ description @ txt_recognised_mid @
             join_strings txt_join_sep labels)) \<and>
   (0 \<le> r \<and> r \<le> 1 - 1 / 2 ^ 53 \<longrightarrow>
      (\<exists>reply \<in> set photo_local_replies. run_callback PhotoLocalReply r st' =
         st'\<lparr>chatMessages := chatMessages st' @
            [\<lparr>origin = Spirit, text_content = reply, image_src = None\<rparr>]\<rparr>) \<and>
      (\<exists>reply \<in> set upload_local_replies. run_callback UploadLocalReply r st' =
         st'\<lparr>chatMessages := chatMessages st' @
            [\<lparr>origin = Spirit, text_content = reply, image_src = None\<rparr>]\<rparr>)) \<and>
   (identifyImage_request new_APIClient d [] =
      \<lparr>url = ascii ''http://localhost:5000/api/identify'', http_method = POST,
       payload = Some (JObj [(ascii ''image'', JStr d), (ascii ''text'', JStr [])])\<rparr>)"
proof -
  have offline: "apiClient st = None \<longrightarrow>
      chatMessages (usePhoto st) = chatMessages st @
        [\<lparr>origin = User, text_content = txt_photo_taken,
          image_src = (if capturedPhoto_src st \<noteq> [] then Some (capturedPhoto_src st) else None)\<rparr>] \<and>
      timers (usePhoto st) = timers st @ [\<lparr>delay = 1000, callback = PhotoLocalReply\<rparr>] \<and>
      requests (usePhoto st) = requests st \<and>
      awaiting_identify (usePhoto st) = awaiting_identify st \<and>
      chatMessages (useUploadedPhoto d st) = chatMessages st @
        [\<lparr>origin = User, text_content = txt_photo_uploaded,
          image_src = (if d \<noteq> [] then Some d else None)\<rparr>] \<and>
      timers (useUploadedPhoto d st) = timers st @ [\<lparr>delay = 1000, callback = UploadLocalReply\<rparr>] \<and>
      requests (useUploadedPhoto d st) = requests st \<and>
      awaiting_identify (useUploadedPhoto d st) = awaiting_identify st"
    by (simp add: usePhoto_offline useUploadedPhoto_offline)
  have online: "\<forall>client. apiClient st = Some client \<longrightarrow>
      chatMessages (usePhoto st) = chatMessages st @
        [\<lparr>origin = User, text_content = txt_photo_taken,
          image_src = (if capturedPhoto_src st \<noteq> [] then Some (capturedPhoto_src st) else None)\<rparr>,
         \<lparr>origin = Spirit, text_content = txt_let_me_look, image_src = None\<rparr>] \<and>
      timers (usePhoto st) = timers st \<and>
      requests (usePhoto st) =
        requests st @ [identifyImage_request client (capturedPhoto_src st) []] \<and>
      awaiting_identify (usePhoto st) = awaiting_identify st @ [From_usePhoto] \<and>
      chatMessages (useUploadedPhoto d st) = chatMessages st @
        [\<lparr>origin = User, text_content = txt_photo_uploaded,
          image_src = (if d \<noteq> [] then Some d else None)\<rparr>,
         \<lparr>origin = Spirit, text_content = txt_let_me_look_upload, image_src = None\<rparr>] \<and>
      timers (useUploadedPhoto d st) = timers st \<and>
      requests (useUploadedPhoto d st) = requests st @ [identifyImage_request client d []] \<and>
      awaiting_identify (useUploadedPhoto d st) =
        awaiting_identify st @ [From_useUploadedPhoto]"
    by (simp add: usePhoto_online useUploadedPhoto_online)
  have same: "useUploadedPhoto_resume fetched st' = usePhoto_resume fetched st'"
    by (simp add: usePhoto_resume_def useUploadedPhoto_resume_def)
  have one: "\<exists>reply. usePhoto_resume fetched st' =
      st'\<lparr>chatMessages := chatMessages st' @
            [\<lparr>origin = Spirit, text_content = reply, image_src = None\<rparr>]\<rparr>"
    unfolding usePhoto_resume_def by (rule identify_resume_one_message)
  have throws: "(\<exists>error. identifyImage fetched = Inl error) \<longrightarrow>
      usePhoto_resume fetched st' =
      st'\<lparr>chatMessages := chatMessages st' @
            [\<lparr>origin = Spirit, text_content = txt_identify_error, image_src = None\<rparr>]\<rparr>"
    unfolding usePhoto_resume_def by (auto simp: identify_resume_throws)
  have rejected: "\<forall>rejection. fetched = Inl rejection \<longrightarrow>
      usePhoto_resume fetched st' =
      st'\<lparr>chatMessages := chatMessages st' @
            [\<lparr>origin = Spirit, text_content = txt_identify_error, image_src = None\<rparr>]\<rparr>"
    unfolding usePhoto_resume_def
    by (auto simp: identify_resume_throws identifyImage_rethrows)
  have undecodable: "\<forall>response undecodable. fetched = Inr response \<and> body response = Inl undecodable \<longrightarrow>
      usePhoto_resume fetched st' =
      st'\<lparr>chatMessages := chatMessages st' @
            [\<lparr>origin = Spirit, text_content = txt_identify_error, image_src = None\<rparr>]\<rparr>"
    unfolding usePhoto_resume_def
    by (auto simp: identify_resume_throws identifyImage_rethrows)
  have not_ok: "\<forall>response. fetched = Inr response \<and> \<not> ok response \<longrightarrow>
      usePhoto_resume fetched st' =
      st'\<lparr>chatMessages := chatMessages st' @
            [\<lparr>origin = Spirit, text_content = txt_identify_error, image_src = None\<rparr>]\<rparr>"
  proof (intro allI impI)
    fix response
    assume h: "fetched = Inr response \<and> \<not> ok response"
    then obtain error where "identifyImage (Inr response) = Inl error"
      using not_ok_throws(1) by blast
    with h show "usePhoto_resume fetched st' =
      st'\<lparr>chatMessages := chatMessages st' @
            [\<lparr>origin = Spirit, text_content = txt_identify_error, image_src = None\<rparr>]\<rparr>"
      by (simp add: usePhoto_resume_def identify_resume_throws)
  qed
  have null: "\<forall>response. fetched = Inr response \<and> ok response \<and> body response = Inr JNull \<longrightarrow>
      usePhoto_resume fetched st' =
      st'\<lparr>chatMessages := chatMessages st' @
            [\<lparr>origin = Spirit, text_content = txt_identify_error, image_src = None\<rparr>]\<rparr>"
    unfolding usePhoto_resume_def by (auto simp: identify_resume_null)
  have unrecognised: "\<forall>response result success.
      fetched = Inr response \<and> ok response \<and> body response = Inr result \<and>
      get_prop result (ascii ''success'') = Inr success \<and> \<not> truthy success \<longrightarrow>
      usePhoto_resume fetched st' =
      st'\<lparr>chatMessages := chatMessages st' @
            [\<lparr>origin = Spirit, text_content = txt_not_identified, image_src = None\<rparr>]\<rparr>"
    unfolding usePhoto_resume_def by (auto simp: identify_resume_no_success)
  have recognised: "\<forall>response result success t.
      fetched = Inr response \<and> ok response \<and> body response = Inr result \<and>
      get_prop result (ascii ''success'') = Inr success \<and> truthy success \<and>
      responseText result = Inr t \<longrightarrow>
      usePhoto_resume fetched st' =
      st'\<lparr>chatMessages := chatMessages st' @
            [\<lparr>origin = Spirit, text_content = t, image_src = None\<rparr>]\<rparr>"
    unfolding usePhoto_resume_def by (auto simp: identify_resume_success)
  have unprintable: "\<forall>response result success error.
      fetched = Inr response \<and> ok response \<and> body response = Inr result \<and>
      get_prop result (ascii ''success'') = Inr success \<and> truthy success \<and>
      responseText result = Inl error \<longrightarrow>
      usePhoto_resume fetched st' =
      st'\<lparr>chatMessages := chatMessages st' @
            [\<lparr>origin = Spirit, text_content = txt_identify_error, image_src = None\<rparr>]\<rparr>"
    unfolding usePhoto_resume_def by (auto simp: identify_resume_success)
  have labels: "\<forall>result description labels.
      get_prop result (ascii ''description'') = Inr (Some (JStr description)) \<and>
      get_prop result (ascii ''objects'') = Inr (Some (JArr (map JStr labels))) \<longrightarrow>
      responseText result =
        Inr (txt_recognised_head @ description @ txt_recognised_mid @
             join_strings txt_join_sep labels)"
    by (auto simp: responseText_labels)
  have timer: "0 \<le> r \<and> r \<le> 1 - 1 / 2 ^ 53 \<longrightarrow>
      (\<exists>reply \<in> set photo_local_replies. run_callback PhotoLocalReply r st' =
         st'\<lparr>chatMessages := chatMessages st' @
            [\<lparr>origin = Spirit, text_content = reply, image_src = None\<rparr>]\<rparr>) \<and>
      (\<exists>reply \<in> set upload_local_replies. run_callback UploadLocalReply r st' =
         st'\<lparr>chatMessages := chatMessages st' @
            [\<lparr>origin = Spirit, text_content = reply, image_src = None\<rparr>]\<rparr>)"
    using local_reply_one_message [of r st'] by blast
  have request: "identifyImage_request new_APIClient d [] =
      \<lparr>url = ascii ''http://localhost:5000/api/identify'', http_method = POST,
       payload = Some (JObj [(ascii ''image'', JStr d), (ascii ''text'', JStr [])])\<rparr>"
    by (simp add: identifyImage_request_def new_APIClient_def API_CONFIG_def ascii_def)
  from offline online same one throws rejected undecodable not_ok null unrecognised recognised unprintable labels timer request
  show ?thesis by (intro conjI)
qed

theorem photo_to_chat_messages_witness:
  "chatMessages (usePhoto (init_state\<lparr>apiClient := Some new_APIClient,
                                      capturedPhoto_src := sample_frame\<rparr>))
     = [\<lparr>origin = User, text_content = txt_photo_taken, image_src = Some sample_frame\<rparr>,
        \<lparr>origin = Spirit, text_content = txt_let_me_look, image_src = None\<rparr>] \<and>
   chatMessages (usePhoto_resume identify_response_unrecognised
                   (usePhoto (init_state\<lparr>apiClient := Some new_APIClient,
                                         capturedPhoto_src := sample_frame\<rparr>)))
     = [\<lparr>origin = User, text_content = txt_photo_taken, image_src = Some sample_frame\<rparr>,
        \<lparr>origin = Spirit, text_content = txt_let_me_look, image_src = None\<rparr>,
        \<lparr>origin = Spirit, text_content = txt_not_identified, image_src = None\<rparr>] \<and>
   chatMessages (usePhoto_resume (Inr \<lparr>ok = False, body = Inr JNull\<rparr>)
                   (usePhoto (init_state\<lparr>apiClient := Some new_APIClient,
                                         capturedPhoto_src := sample_frame\<rparr>)))
     = [\<lparr>origin = User, text_content = txt_photo_taken, image_src = Some sample_frame\<rparr>,
        \<lparr>origin = Spirit, text_content = txt_let_me_look, image_src = None\<rparr>,
        \<lparr>origin = Spirit, text_content = txt_identify_error, image_src = None\<rparr>]"
proof -
  let ?st = "init_state\<lparr>apiClient := Some new_APIClient, capturedPhoto_src := sample_frame\<rparr>"
  have h: "apiClient ?st = Some new_APIClient" by simp
  have f: "capturedPhoto_src ?st \<noteq> []" by (simp add: sample_frame_def ascii_def)
  have e: "chatMessages ?st = []" by (simp add: init_state_def)
  have u: "identify_response_unrecognised = Inr \<lparr>ok = True, body = Inr (JObj [(ascii ''success'', JBool False)])\<rparr> \<and>
           ok \<lparr>ok = True, body = Inr (JObj [(ascii ''success'', JBool False)])\<rparr> \<and>
           body \<lparr>ok = True, body = Inr (JObj [(ascii ''success'', JBool False)])\<rparr>
             = Inr (JObj [(ascii ''success'', JBool False)]) \<and>
           get_prop (JObj [(ascii ''success'', JBool False)]) (ascii ''success'')
             = Inr (Some (JBool False)) \<and>
           \<not> truthy (Some (JBool False))"
    by (simp add: identify_response_unrecognised_def)
  note T = photo_to_chat_messages
    [where st = ?st and fetched = identify_response_unrecognised and st' = "usePhoto ?st"]
  from T [THEN conjunct2, THEN conjunct1, rule_format, OF h]
  have a: "chatMessages (usePhoto ?st) = chatMessages ?st @
        [\<lparr>origin = User, text_content = txt_photo_taken,
          image_src = (if capturedPhoto_src ?st \<noteq> [] then Some (capturedPhoto_src ?st) else None)\<rparr>,
         \<lparr>origin = Spirit, text_content = txt_let_me_look, image_src = None\<rparr>]"
    by (rule conjunct1)
  from T [THEN conjunct2, THEN conjunct2, THEN conjunct2, THEN conjunct2, THEN conjunct2,
          THEN conjunct2, THEN conjunct2, THEN conjunct2, THEN conjunct2, THEN conjunct1,
          rule_format, OF u]
  have b: "usePhoto_resume identify_response_unrecognised (usePhoto ?st)
         = (usePhoto ?st)\<lparr>chatMessages := chatMessages (usePhoto ?st) @
        [\<lparr>origin = Spirit, text_content = txt_not_identified, image_src = None\<rparr>]\<rparr>" .
  have n: "(Inr \<lparr>ok = False, body = Inr JNull\<rparr> :: fetched) = Inr \<lparr>ok = False, body = Inr JNull\<rparr> \<and>
           \<not> ok \<lparr>ok = False, body = Inr JNull\<rparr>" by simp
  note T' = photo_to_chat_messages
    [where st = ?st and fetched = "Inr \<lparr>ok = False, body = Inr JNull\<rparr>"
       and st' = "usePhoto ?st"]
  from T' [THEN conjunct2, THEN conjunct2, THEN conjunct2, THEN conjunct2, THEN conjunct2,
           THEN conjunct2, THEN conjunct2, THEN conjunct1, rule_format, OF n]
  have c: "usePhoto_resume (Inr \<lparr>ok = False, body = Inr JNull\<rparr>) (usePhoto ?st)
         = (usePhoto ?st)\<lparr>chatMessages := chatMessages (usePhoto ?st) @
        [\<lparr>origin = Spirit, text_content = txt_identify_error, image_src = None\<rparr>]\<rparr>" .
  from a b c f e show ?thesis by simp
qed

text \<open>
  C2 as stated fails in the session where the page loads, the camera is granted, the probe
  answers \<open>ok\<close>, a frame is captured and used, and the identify request answers
  \<open>{"success": false}\<close>: the transcript gains the user message and two spirit messages.
\<close>

theorem usePhoto_two_spirit_messages_counterexample:
  "chatMessages (run [DOMContentLoaded True True, CameraSettled (Inr sample_stream),
                      HealthSettled health_response_ok, ClickCameraFab sample_frame,
                      ClickUsePhoto, IdentifySettled 0 identify_response_unrecognised]
                   init_state)
     = [\<lparr>origin = User, text_content = txt_photo_taken, image_src = Some sample_frame\<rparr>,
        \<lparr>origin = Spirit, text_content = txt_let_me_look, image_src = None\<rparr>,
        \<lparr>origin = Spirit, text_content = txt_not_identified, image_src = None\<rparr>]"
proof -
  define s1 where "s1 = step (DOMContentLoaded True True) init_state"
  define s2 where "s2 = step (CameraSettled (Inr sample_stream)) s1"
  define s3 where "s3 = step (HealthSettled health_response_ok) s2"
  define s4 where "s4 = step (ClickCameraFab sample_frame) s3"
  define s5 where "s5 = step ClickUsePhoto s4"
  define s6 where "s6 = step (IdentifySettled 0 identify_response_unrecognised) s5"
  have final: "run [DOMContentLoaded True True, CameraSettled (Inr sample_stream),
                    HealthSettled health_response_ok, ClickCameraFab sample_frame,
                    ClickUsePhoto, IdentifySettled 0 identify_response_unrecognised]
                 init_state = s6"
    by (simp only: run_def foldl.simps s1_def s2_def s3_def s4_def s5_def s6_def)
  have s1: "loaded s1" "apiClient s1 = Some new_APIClient" "awaiting_health s1"
    "awaiting_camera s1" "chatMessages s1 = []" "awaiting_identify s1 = []"
    "buttons s1 = [\<lparr>attached = True, listeners = [Listener_usePhoto]\<rparr>]"
    by (simp_all add: s1_def init_state_def on_load_def initAPI_def construct_APIClient_def initCamera_def
        initEventListeners_def addEventListener_def send_request_def)
  have s2: "loaded s2" "apiClient s2 = Some new_APIClient" "awaiting_health s2"
    "currentStream s2 = Some sample_stream" "chatMessages s2 = []" "awaiting_identify s2 = []"
    "buttons s2 = [\<lparr>attached = True, listeners = [Listener_usePhoto]\<rparr>]"
    using s1 by (simp_all add: s2_def initCamera_resume_def)
  have ok: "initAPI_resume health_response_ok st = st" for st
    by (simp add: initAPI_resume_def health_response_ok_def checkHealth_decoded then_do_def
        ascii_def)
  have s3: "loaded s3" "apiClient s3 = Some new_APIClient"
    "currentStream s3 = Some sample_stream" "chatMessages s3 = []" "awaiting_identify s3 = []"
    "buttons s3 = [\<lparr>attached = True, listeners = [Listener_usePhoto]\<rparr>]"
    using s2 by (simp_all add: s3_def ok)
  have s4: "apiClient s4 = Some new_APIClient" "capturedPhoto_src s4 = sample_frame"
    "chatMessages s4 = []" "awaiting_identify s4 = []"
    "buttons s4 = [\<lparr>attached = True, listeners = [Listener_usePhoto]\<rparr>]"
    using s3 by (simp_all add: s4_def handleCapture_def setTimeout_def Let_def)
  have frame: "sample_frame \<noteq> []" by (simp add: sample_frame_def ascii_def)
  have found: "getElementById_use_photo_btn s4 = Some 0"
    by (simp add: getElementById_use_photo_btn_def s4)
  have s5_eq: "s5 = usePhoto s4"
    by (simp add: s5_def click_use_photo_btn_def found s4 run_listener_def)
  have s5: "chatMessages s5 =
      [\<lparr>origin = User, text_content = txt_photo_taken, image_src = Some sample_frame\<rparr>,
       \<lparr>origin = Spirit, text_content = txt_let_me_look, image_src = None\<rparr>]"
    "awaiting_identify s5 = [From_usePhoto]"
    using s4 frame by (simp_all add: s5_eq usePhoto_online [OF s4(1)])
  have un: "identify_resume identify_response_unrecognised st =
     st\<lparr>chatMessages := chatMessages st @
           [\<lparr>origin = Spirit, text_content = txt_not_identified, image_src = None\<rparr>]\<rparr>" for st
    unfolding identify_response_unrecognised_def
    by (rule identify_resume_no_success
          [where success = "Some (JBool False)"
             and result = "JObj [(ascii ''success'', JBool False)]"]) simp_all
  have s6: "chatMessages s6 =
      [\<lparr>origin = User, text_content = txt_photo_taken, image_src = Some sample_frame\<rparr>,
       \<lparr>origin = Spirit, text_content = txt_let_me_look, image_src = None\<rparr>,
       \<lparr>origin = Spirit, text_content = txt_not_identified, image_src = None\<rparr>]"
    using s5 by (simp add: s6_def usePhoto_resume_def un remove_nth_def)
  show ?thesis unfolding final by (rule s6)
qed

section \<open>The use-photo button after uploads\<close>

text \<open>
  The first preview of a page finds \<open>usePhotoBtn\<close> in the document: the clone takes its
  place and gets the two listeners, both for the picture of that preview.
\<close>

lemma show_preview_rebinds:
  assumes "buttons st = [usePhotoBtn]" and "attached usePhotoBtn"
  shows "buttons (show_preview imageData 0 st) =
           [usePhotoBtn\<lparr>attached := False\<rparr>,
            \<lparr>attached = True,
             listeners = [Listener_useUploadedPhoto imageData,
                          Listener_useUploadedPhoto imageData]\<rparr>]"
    and "use_photo_listeners (show_preview imageData 0 st) =
           [Listener_useUploadedPhoto imageData, Listener_useUploadedPhoto imageData]"
    and "uncaught (show_preview imageData 0 st) = uncaught st"
proof -
  show b: "buttons (show_preview imageData 0 st) =
           [usePhotoBtn\<lparr>attached := False\<rparr>,
            \<lparr>attached = True,
             listeners = [Listener_useUploadedPhoto imageData,
                          Listener_useUploadedPhoto imageData]\<rparr>]"
    and "uncaught (show_preview imageData 0 st) = uncaught st"
    using assms
    by (simp_all add: show_preview_def cloneNode_def addEventListener_def
        getElementById_use_photo_btn_def upt_conv_Cons Let_def)
  show "use_photo_listeners (show_preview imageData 0 st) =
           [Listener_useUploadedPhoto imageData, Listener_useUploadedPhoto imageData]"
    by (simp add: use_photo_listeners_def getElementById_use_photo_btn_def b upt_conv_Cons)
qed

text \<open>
  Any later preview finds \<open>usePhotoBtn\<close> without a parent: the callback shows the
  picture, makes a clone and ends in a TypeError, so the buttons that exist keep their
  listeners.
\<close>

lemma show_preview_stale:
  assumes "buttons st = usePhotoBtn # others" and "\<not> attached usePhotoBtn"
  shows "show_preview imageData 0 st =
           st\<lparr>capturedPhoto_src := imageData, modal_active := True,
              buttons := buttons st @ [\<lparr>attached = False, listeners = []\<rparr>],
              uncaught := uncaught st @ [Exn TypeError (msg_null_read (ascii ''replaceChild''))]\<rparr>"
  using assms
  by (simp add: show_preview_def cloneNode_def throw_uncaught_def Let_def)

lemma use_photo_listeners_append_detached:
  "use_photo_listeners (st\<lparr>buttons := buttons st @ [\<lparr>attached = False, listeners = []\<rparr>]\<rparr>)
     = use_photo_listeners st"
proof -
  let ?bs = "buttons st"
  let ?bs' = "?bs @ [\<lparr>attached = False, listeners = []\<rparr>]"
  have same: "filter (\<lambda>i. attached (?bs' ! i)) [0..<length ?bs] =
              filter (\<lambda>i. attached (?bs ! i)) [0..<length ?bs]"
    by (rule filter_cong) (simp_all add: nth_append)
  then have f: "filter (\<lambda>i. attached (?bs' ! i)) [0..<length ?bs'] =
             filter (\<lambda>i. attached (?bs ! i)) [0..<length ?bs]"
    by simp
  show ?thesis
  proof (cases "filter (\<lambda>i. attached (?bs ! i)) [0..<length ?bs]")
    case Nil
    with f show ?thesis
      by (simp add: use_photo_listeners_def getElementById_use_photo_btn_def)
  next
    case (Cons i others)
    then have "i \<in> set (filter (\<lambda>i. attached (?bs ! i)) [0..<length ?bs])" by simp
    then have "i < length ?bs" by simp
    with f Cons show ?thesis
      by (simp add: use_photo_listeners_def getElementById_use_photo_btn_def nth_append)
  qed
qed

lemma use_photo_listeners_cong:
  "buttons st = buttons st' \<Longrightarrow> use_photo_listeners st = use_photo_listeners st'"
  by (simp add: use_photo_listeners_def getElementById_use_photo_btn_def
      cong: option.case_cong list.case_cong)

lemma show_preview_stale_listeners:
  assumes "buttons st = usePhotoBtn # others" and "\<not> attached usePhotoBtn"
  shows "use_photo_listeners (show_preview imageData 0 st) = use_photo_listeners st"
proof -
  have "buttons (show_preview imageData 0 st) =
        buttons (st\<lparr>buttons := buttons st @ [\<lparr>attached = False, listeners = []\<rparr>]\<rparr>)"
    by (simp add: show_preview_stale [OF assms])
  then have "use_photo_listeners (show_preview imageData 0 st) =
        use_photo_listeners (st\<lparr>buttons := buttons st @ [\<lparr>attached = False, listeners = []\<rparr>]\<rparr>)"
    by (rule use_photo_listeners_cong)
  then show ?thesis by (simp only: use_photo_listeners_append_detached)
qed

text \<open>
  C10 at two uploads in a row. The page loads, the probe fails, the list with \<open>file_A\<close> is
  dropped, read and previewed; then the list with \<open>file_B\<close> is dropped, read and
  previewed; then the button is clicked. After the first preview the button of the document
  has two listeners for the picture of \<open>file_A\<close>. After the second preview the overlay
  shows the picture of \<open>file_B\<close>, the callback has ended in a TypeError, and the button
  still has the two listeners for the picture of \<open>file_A\<close>: the click appends two user
  messages with the picture of \<open>file_A\<close>.
\<close>

theorem second_upload_keeps_first_listeners:
  "use_photo_listeners
     (run [DOMContentLoaded True True, HealthSettled health_response_down,
           Dropped [file_A], ReaderLoaded 0, TimerFired 0 0] init_state)
     = [Listener_useUploadedPhoto (dataURL file_A), Listener_useUploadedPhoto (dataURL file_A)] \<and>
   capturedPhoto_src
     (run [DOMContentLoaded True True, HealthSettled health_response_down,
           Dropped [file_A], ReaderLoaded 0, TimerFired 0 0,
           Dropped [file_B], ReaderLoaded 0, TimerFired 0 0] init_state)
     = dataURL file_B \<and>
   uncaught
     (run [DOMContentLoaded True True, HealthSettled health_response_down,
           Dropped [file_A], ReaderLoaded 0, TimerFired 0 0,
           Dropped [file_B], ReaderLoaded 0, TimerFired 0 0] init_state)
     = [Exn TypeError (msg_null_read (ascii ''replaceChild''))] \<and>
   use_photo_listeners
     (run [DOMContentLoaded True True, HealthSettled health_response_down,
           Dropped [file_A], ReaderLoaded 0, TimerFired 0 0,
           Dropped [file_B], ReaderLoaded 0, TimerFired 0 0] init_state)
     = [Listener_useUploadedPhoto (dataURL file_A), Listener_useUploadedPhoto (dataURL file_A)] \<and>
   dataURL file_A \<noteq> dataURL file_B \<and>
   chatMessages
     (run [DOMContentLoaded True True, HealthSettled health_response_down,
           Dropped [file_A], ReaderLoaded 0, TimerFired 0 0,
           Dropped [file_B], ReaderLoaded 0, TimerFired 0 0, ClickUsePhoto] init_state)
     = [\<lparr>origin = User, text_content = txt_photo_uploaded, image_src = Some (dataURL file_A)\<rparr>,
        \<lparr>origin = User, text_content = txt_photo_uploaded, image_src = Some (dataURL file_A)\<rparr>]"
proof -
  define s1 where "s1 = step (DOMContentLoaded True True) init_state"
  define s2 where "s2 = step (HealthSettled health_response_down) s1"
  define s3 where "s3 = step (Dropped [file_A]) s2"
  define s4 where "s4 = step (ReaderLoaded 0) s3"
  define s5 where "s5 = step (TimerFired 0 0) s4"
  define s6 where "s6 = step (Dropped [file_B]) s5"
  define s7 where "s7 = step (ReaderLoaded 0) s6"
  define s8 where "s8 = step (TimerFired 0 0) s7"
  define s9 where "s9 = step ClickUsePhoto s8"
  have r5: "run [DOMContentLoaded True True, HealthSettled health_response_down,
                 Dropped [file_A], ReaderLoaded 0, TimerFired 0 0] init_state = s5"
    by (simp only: run_def foldl.simps s1_def s2_def s3_def s4_def s5_def)
  have r8: "run [DOMContentLoaded True True, HealthSettled health_response_down,
                 Dropped [file_A], ReaderLoaded 0, TimerFired 0 0,
                 Dropped [file_B], ReaderLoaded 0, TimerFired 0 0] init_state = s8"
    by (simp only: run_def foldl.simps s1_def s2_def s3_def s4_def s5_def s6_def s7_def s8_def)
  have r9: "run [DOMContentLoaded True True, HealthSettled health_response_down,
                 Dropped [file_A], ReaderLoaded 0, TimerFired 0 0,
                 Dropped [file_B], ReaderLoaded 0, TimerFired 0 0, ClickUsePhoto] init_state = s9"
    by (simp only: run_def foldl.simps s1_def s2_def s3_def s4_def s5_def s6_def s7_def s8_def
        s9_def)
  have img: "startsWith (ftype file_A) (ascii ''image/'')"
    "startsWith (ftype file_B) (ascii ''image/'')"
    by (simp_all add: file_A_def file_B_def startsWith_def ascii_def)
  have differ: "dataURL file_A \<noteq> dataURL file_B"
    by (simp add: file_A_def file_B_def ascii_def)
  have nonempty: "dataURL file_A \<noteq> []"
    by (simp add: file_A_def ascii_def)
  have s1: "loaded s1" "awaiting_health s1" "chatMessages s1 = []" "timers s1 = []"
    "readers s1 = []" "uncaught s1 = []"
    "buttons s1 = [\<lparr>attached = True, listeners = [Listener_usePhoto]\<rparr>]"
    by (simp_all add: s1_def init_state_def on_load_def initAPI_def construct_APIClient_def initCamera_def
        initEventListeners_def addEventListener_def send_request_def)
  have down: "initAPI_resume health_response_down st = st\<lparr>apiClient := None\<rparr>" for st
    by (rule initAPI_resume_failed) (auto simp: health_response_down_def ascii_def)
  have s2: "loaded s2" "apiClient s2 = None" "chatMessages s2 = []" "timers s2 = []"
    "readers s2 = []" "uncaught s2 = []"
    "buttons s2 = [\<lparr>attached = True, listeners = [Listener_usePhoto]\<rparr>]"
    using s1 by (simp_all add: s2_def down)
  have s3: "loaded s3" "apiClient s3 = None" "chatMessages s3 = []" "timers s3 = []"
    "readers s3 = [(dataURL file_A, 0)]" "uncaught s3 = []"
    "buttons s3 = [\<lparr>attached = True, listeners = [Listener_usePhoto]\<rparr>]"
    using s2 img by (simp_all add: s3_def handleFiles_def enumerate_eq_zip)
  have s4: "loaded s4" "apiClient s4 = None" "chatMessages s4 = []"
    "timers s4 = [\<lparr>delay = 0, callback = ShowPreview (dataURL file_A) 0\<rparr>]"
    "readers s4 = []" "uncaught s4 = []"
    "buttons s4 = [\<lparr>attached = True, listeners = [Listener_usePhoto]\<rparr>]"
    using s3 by (simp_all add: s4_def reader_onload_def setTimeout_def remove_nth_def)
  have s5_eq: "s5 = show_preview (dataURL file_A) 0 (s4\<lparr>timers := []\<rparr>)"
    using s4 by (simp add: s5_def run_callback_def remove_nth_def)
  have s5b: "buttons s5 =
      [\<lparr>attached = False, listeners = [Listener_usePhoto]\<rparr>,
       \<lparr>attached = True,
        listeners = [Listener_useUploadedPhoto (dataURL file_A),
                     Listener_useUploadedPhoto (dataURL file_A)]\<rparr>]"
    and s5l: "use_photo_listeners s5 =
      [Listener_useUploadedPhoto (dataURL file_A), Listener_useUploadedPhoto (dataURL file_A)]"
    and s5u: "uncaught s5 = []"
    using show_preview_rebinds [of "s4\<lparr>timers := []\<rparr>"
        "\<lparr>attached = True, listeners = [Listener_usePhoto]\<rparr>" "dataURL file_A"] s4
    by (simp_all add: s5_eq)
  have s5: "loaded s5" "apiClient s5 = None" "chatMessages s5 = []" "timers s5 = []"
    "readers s5 = []"
    using s4 by (simp_all add: s5_eq show_preview_frame)
      (simp_all add: show_preview_def throw_uncaught_def addEventListener_def Let_def
        split: list.splits option.splits)
  have s6: "loaded s6" "apiClient s6 = None" "chatMessages s6 = []" "timers s6 = []"
    "readers s6 = [(dataURL file_B, 0)]" "uncaught s6 = []" "buttons s6 = buttons s5"
    using s5 s5u img
    by (simp_all add: s6_def handleFiles_def enumerate_eq_zip)
  have s7: "loaded s7" "apiClient s7 = None" "chatMessages s7 = []"
    "timers s7 = [\<lparr>delay = 0, callback = ShowPreview (dataURL file_B) 0\<rparr>]"
    "uncaught s7 = []" "buttons s7 = buttons s5"
    using s6
    by (simp_all add: s7_def reader_onload_def setTimeout_def remove_nth_def)
  have s7l: "use_photo_listeners (s7\<lparr>timers := []\<rparr>) = use_photo_listeners s5"
    by (rule use_photo_listeners_cong) (simp add: s7)
  have s8_eq: "s8 = show_preview (dataURL file_B) 0 (s7\<lparr>timers := []\<rparr>)"
    using s7 by (simp add: s8_def run_callback_def remove_nth_def)
  have stale: "buttons (s7\<lparr>timers := []\<rparr>) =
      \<lparr>attached = False, listeners = [Listener_usePhoto]\<rparr> #
      [\<lparr>attached = True,
        listeners = [Listener_useUploadedPhoto (dataURL file_A),
                     Listener_useUploadedPhoto (dataURL file_A)]\<rparr>]"
    "\<not> attached \<lparr>attached = False, listeners = [Listener_usePhoto]\<rparr>"
    using s7 s5b by simp_all
  have s8: "capturedPhoto_src s8 = dataURL file_B"
    "uncaught s8 = [Exn TypeError (msg_null_read (ascii ''replaceChild''))]"
    "apiClient s8 = None" "chatMessages s8 = []"
    using s7 by (simp_all add: s8_eq show_preview_stale [OF stale])
  have s8l: "use_photo_listeners s8 =
      [Listener_useUploadedPhoto (dataURL file_A), Listener_useUploadedPhoto (dataURL file_A)]"
    using show_preview_stale_listeners [OF stale, of "dataURL file_B"] s7l s5l
    by (simp add: s8_eq)
  have click: "click_use_photo_btn st =
      foldl (\<lambda>s l. run_listener l s) st (use_photo_listeners st)" for st
    by (simp add: click_use_photo_btn_def use_photo_listeners_def split: option.splits)
  have s9: "chatMessages s9 =
      [\<lparr>origin = User, text_content = txt_photo_uploaded, image_src = Some (dataURL file_A)\<rparr>,
       \<lparr>origin = User, text_content = txt_photo_uploaded, image_src = Some (dataURL file_A)\<rparr>]"
    using s8 nonempty
    by (simp add: s9_def click s8l run_listener_def useUploadedPhoto_offline)
  show ?thesis unfolding r5 r8 r9 using s5l s8 s8l differ s9 by simp
qed

end
